theory Spec2Isabelle
  imports Main "HOL-Library.Word"
begin

unbundle bit_operations_syntax

section \<open>Data model of the headless-server logger\<close>

text \<open>
  The development embeds \<^verbatim>\<open>Code/Launcher/HeadlessServer/Logger.cpp\<close>. Member functions
  of \<^verbatim>\<open>Logger\<close> take the logger object and the outside world (disk and the sequence of
  observable calls made so far) and return both, updated.
\<close>

text \<open>\<^verbatim>\<open>ILog::ELogType\<close>: the nine message kinds the logger switches over.\<close>

datatype ELogType =
  eMessage | eWarning | eError | eAlways | eWarningAlways | eErrorAlways
  | eInput | eInputResponse | eComment

text \<open>\<^verbatim>\<open>Logger::Message\<close>; \<^verbatim>\<open>flags\<close> is an \<^verbatim>\<open>unsigned int\<close> bit set.\<close>

record Message =
  type :: ELogType
  flags :: "32 word"
  prefix :: string
  content :: string

text \<open>
  Modelled from the spec: \<^verbatim>\<open>Logger.h\<close> is not among the sources, so the numeric values of
  the three \<^verbatim>\<open>Message::FLAG_*\<close> constants are taken as three distinct single bits
  (the spec: a bit set of ToFile, ToConsole, Append).
\<close>

definition FLAG_FILE :: "32 word" where
  "FLAG_FILE = 1"

definition FLAG_CONSOLE :: "32 word" where
  "FLAG_CONSOLE = 2"

definition FLAG_APPEND :: "32 word" where
  "FLAG_APPEND = 4"

text \<open>
  \<^verbatim>\<open>m_cvars\<close>: each console variable is a pointer that is null until
  \<^verbatim>\<open>RegisterConsoleVariables\<close> ran; a registered variable carries its current value.
  The string variable is set from and read as a \<^verbatim>\<open>const char*\<close>, as are the format
  string of a submission and the path given to \<^verbatim>\<open>OpenFile\<close>.
\<close>

record CVars =
  cvar_verbosity :: "int option"
  cvar_fileVerbosity :: "int option"
  cvar_prefix :: "string option"

text \<open>An open \<^verbatim>\<open>OS::File\<close>: the path it was opened on and its file pointer.\<close>

record OSFile =
  fpath :: string
  fpos :: nat

record Logger =
  m_verbosity :: int
  m_cvars :: CVars
  m_mainThreadID :: nat
  m_messages :: "Message list"
  m_file :: "OSFile option"
  m_filePath :: string
  m_prefix :: string
  m_callbacks :: "nat list"

text \<open>
  What a call of the logger can be seen to do outside the object, in the order it does it:
  taking and releasing \<^verbatim>\<open>m_mutex\<close>, the calls on the open file, the console prints and
  the \<^verbatim>\<open>ILogCallback\<close> notifications (listener, content, isNewLine).
\<close>

datatype Event =
  MutexLock
  | MutexUnlock
  | FileSeekEnd int
  | FileWrite string
  | PrintLine string
  | PrintLinePlus string
  | OnWriteToFile nat string bool
  | OnWriteToConsole nat string bool

record Disk =
  files :: "string \<rightharpoonup> string"
  dirs :: "string set"

record World =
  disk :: Disk
  trace :: "Event list"

text \<open>\<^verbatim>\<open>OS::DateTime\<close>, the local time snapshot the prefix is rendered from.\<close>

record DateTime =
  year :: nat
  month :: nat
  day :: nat
  hour :: nat
  minute :: nat
  second :: nat
  millisecond :: nat

text \<open>
  What a call reads from the host at the moment it runs: \<^verbatim>\<open>OS::GetCurrentThreadID()\<close>,
  \<^verbatim>\<open>OS::GetCurrentDateTimeLocal()\<close>, \<^verbatim>\<open>OS::GetCurrentTimeZoneBias()\<close>, and whether
  \<^verbatim>\<open>gEnv\<close> and \<^verbatim>\<open>gEnv->pConsole\<close> are both non-null.
\<close>

record Env =
  currentThreadID :: nat
  currentDateTimeLocal :: DateTime
  currentTimeZoneBias :: int
  hasConsole :: bool

text \<open>
  The macros and library helpers the file uses but does not define (\<^verbatim>\<open>OS.h\<close>,
  \<^verbatim>\<open>CryColorCode.h\<close>, \<^verbatim>\<open>StringTools\<close>, \<^verbatim>\<open>PathTools\<close>) are parameters of the model:
  every theorem below holds for any choice of them. \<^verbatim>\<open>FormatV\<close> is the text that
  \<^verbatim>\<open>StringTools::FormatToV\<close> appends for a format string and its arguments.
\<close>

record 'a Platform =
  OS_NEWLINE :: string
  OS_PATH_SLASH :: char
  CRY_COLOR_CODE_YELLOW_STRING :: string
  CRY_COLOR_CODE_RED_STRING :: string
  CRY_COLOR_CODE_GRAY_STRING :: string
  FormatV :: "string \<Rightarrow> 'a \<Rightarrow> string"
  DirName :: "string \<Rightarrow> string"
  BaseName :: "string \<Rightarrow> string"
  RemoveFileExtension :: "string \<Rightarrow> string"
  GetFileExtension :: "string \<Rightarrow> string"

text \<open>
  Modelled from the spec: \<^verbatim>\<open>OS_NEWLINE_LENGTH\<close> is a macro of the absent \<^verbatim>\<open>OS.h\<close>; the
  spec calls it one newline-length, the length of the platform newline sequence.
\<close>

definition OS_NEWLINE_LENGTH :: "'a Platform \<Rightarrow> nat" where
  "OS_NEWLINE_LENGTH P = length (OS_NEWLINE P)"

definition LF :: char where
  "LF = CHR 0x0A"

definition CR :: char where
  "CR = CHR 0x0D"

definition DQUOTE :: char where
  "DQUOTE = CHR 0x22"

text \<open>
  \<^verbatim>\<open>std::string::c_str()\<close> handed to a function that takes a \<^verbatim>\<open>const char*\<close>: the callee
  reads the bytes before the first NUL byte.
\<close>

definition c_str :: "string \<Rightarrow> string" where
  "c_str s = takeWhile (\<lambda>c. c \<noteq> CHR 0x00) s"

section \<open>Verbosity filter\<close>

definition GetVerbosityLevel :: "Logger \<Rightarrow> int" where
  "GetVerbosityLevel L =
     (case cvar_verbosity (m_cvars L) of Some v \<Rightarrow> v | None \<Rightarrow> m_verbosity L)"

fun GetRequiredVerbosity :: "ELogType \<Rightarrow> int" where
  "GetRequiredVerbosity eAlways = 0"
| "GetRequiredVerbosity eWarningAlways = 0"
| "GetRequiredVerbosity eErrorAlways = 0"
| "GetRequiredVerbosity eInput = 0"
| "GetRequiredVerbosity eInputResponse = 0"
| "GetRequiredVerbosity eError = 1"
| "GetRequiredVerbosity eWarning = 2"
| "GetRequiredVerbosity eMessage = 3"
| "GetRequiredVerbosity eComment = 4"

definition SetVerbosity :: "Logger \<Rightarrow> int \<Rightarrow> Logger" where
  "SetVerbosity L v =
     L\<lparr>m_cvars := (m_cvars L)\<lparr>
          cvar_verbosity := map_option (\<lambda>_. v) (cvar_verbosity (m_cvars L)),
          cvar_fileVerbosity := map_option (\<lambda>_. v) (cvar_fileVerbosity (m_cvars L))\<rparr>,
        m_verbosity := v\<rparr>"

section \<open>Prefix formatter\<close>

text \<open>\<^verbatim>\<open>printf\<close>'s \<^verbatim>\<open>%0Nu\<close> and \<^verbatim>\<open>%0Nx\<close>: digits, zero-padded on the left to N.\<close>

definition digit_char :: "nat \<Rightarrow> char" where
  "digit_char d = ''0123456789abcdef'' ! d"

fun dec_digits :: "nat \<Rightarrow> string" where
  "dec_digits n =
     (if n < 10 then [digit_char n] else dec_digits (n div 10) @ [digit_char (n mod 10)])"

fun hex_digits :: "nat \<Rightarrow> string" where
  "hex_digits n =
     (if n < 16 then [digit_char n] else hex_digits (n div 16) @ [digit_char (n mod 16)])"

declare dec_digits.simps [simp del]
declare hex_digits.simps [simp del]

definition zero_pad :: "nat \<Rightarrow> string \<Rightarrow> string" where
  "zero_pad w s = replicate (w - length s) (CHR ''0'') @ s"

definition Format_u :: "nat \<Rightarrow> nat \<Rightarrow> string" where
  "Format_u w n = zero_pad w (dec_digits n)"

definition Format_x :: "nat \<Rightarrow> nat \<Rightarrow> string" where
  "Format_x w n = zero_pad w (hex_digits n)"

definition AddTimeZoneOffset :: "Env \<Rightarrow> string \<Rightarrow> string" where
  "AddTimeZoneOffset E result =
     (let bias = currentTimeZoneBias E in
      if bias = 0 then result @ ''Z''
      else
        (let sign = (if bias < 0 then CHR ''+'' else CHR ''-'');
             bias' = (if bias < 0 then - bias else bias)
         in result @ [sign] @ Format_u 2 (nat (bias' div 60)) @ Format_u 2 (nat (bias' mod 60))))"

definition ExpandMessagePrefixSpecifier :: "Env \<Rightarrow> string \<Rightarrow> DateTime \<Rightarrow> char \<Rightarrow> string" where
  "ExpandMessagePrefixSpecifier E result time specifier =
     (if specifier = CHR ''%'' then result @ ''%''
      else if specifier = CHR ''t'' then result @ Format_x 4 (currentThreadID E)
      else if specifier = CHR ''d'' then result @ Format_u 2 (day time)
      else if specifier = CHR ''m'' then result @ Format_u 2 (month time)
      else if specifier = CHR ''Y'' then result @ Format_u 4 (year time)
      else if specifier = CHR ''F'' then
        result @ Format_u 4 (year time) @ ''-'' @ Format_u 2 (month time) @ ''-''
          @ Format_u 2 (day time)
      else if specifier = CHR ''H'' then result @ Format_u 2 (hour time)
      else if specifier = CHR ''M'' then result @ Format_u 2 (minute time)
      else if specifier = CHR ''S'' then result @ Format_u 2 (second time)
      else if specifier = CHR ''T'' then
        result @ Format_u 2 (hour time) @ '':'' @ Format_u 2 (minute time) @ '':''
          @ Format_u 2 (second time)
      else if specifier = CHR ''N'' then result @ Format_u 3 (millisecond time)
      else if specifier = CHR ''z'' then AddTimeZoneOffset E result
      else result)"

text \<open>
  The \<^verbatim>\<open>for\<close> loop of \<^verbatim>\<open>BuildMessagePrefix\<close> over the template, appending to the
  prefix built so far; a \<^verbatim>\<open>%\<close> in last position expands to nothing.
\<close>

fun ExpandPrefixTemplate :: "Env \<Rightarrow> DateTime \<Rightarrow> string \<Rightarrow> string \<Rightarrow> string" where
  "ExpandPrefixTemplate E time [] result = result"
| "ExpandPrefixTemplate E time [c] result = (if c = CHR ''%'' then result else result @ [c])"
| "ExpandPrefixTemplate E time (c # s # rest) result =
     (if c = CHR ''%''
      then ExpandPrefixTemplate E time rest (ExpandMessagePrefixSpecifier E result time s)
      else ExpandPrefixTemplate E time (s # rest) (result @ [c]))"

definition BuildMessagePrefix :: "Env \<Rightarrow> Logger \<Rightarrow> Message \<Rightarrow> Message" where
  "BuildMessagePrefix E L message =
     (case cvar_prefix (m_cvars L) of
        None \<Rightarrow> message
      | Some template \<Rightarrow>
          if template = [] \<or> template = ''0'' then message
          else
            (let rendered =
                   ExpandPrefixTemplate E (currentDateTimeLocal E) template (prefix message)
             in message\<lparr>prefix := (if rendered \<noteq> [] then rendered @ '' '' else rendered)\<rparr>))"

definition SetPrefix :: "Logger \<Rightarrow> string \<Rightarrow> Logger" where
  "SetPrefix L p =
     L\<lparr>m_cvars := (m_cvars L)\<lparr>cvar_prefix := map_option (\<lambda>_. p) (cvar_prefix (m_cvars L))\<rparr>,
        m_prefix := p\<rparr>"

section \<open>Content formatter\<close>

definition BuildMessageContent :: "'a Platform \<Rightarrow> Message \<Rightarrow> string \<Rightarrow> 'a \<Rightarrow> Message" where
  "BuildMessageContent P message format args =
     (let decoration =
            (case type message of
               eWarning \<Rightarrow> CRY_COLOR_CODE_YELLOW_STRING P @ ''[Warning] ''
             | eWarningAlways \<Rightarrow> CRY_COLOR_CODE_YELLOW_STRING P @ ''[Warning] ''
             | eError \<Rightarrow> CRY_COLOR_CODE_RED_STRING P @ ''[Error] ''
             | eErrorAlways \<Rightarrow> CRY_COLOR_CODE_RED_STRING P @ ''[Error] ''
             | eComment \<Rightarrow> CRY_COLOR_CODE_GRAY_STRING P
             | eMessage \<Rightarrow> []
             | eAlways \<Rightarrow> []
             | eInput \<Rightarrow> []
             | eInputResponse \<Rightarrow> [])
      in message\<lparr>content := content message @ decoration @ FormatV P format args\<rparr>)"

section \<open>The file primitives the sinks call\<close>

text \<open>
  Modelled from the spec: \<^verbatim>\<open>OS::File\<close> and \<^verbatim>\<open>OS::Directory\<close> live in the absent
  \<^verbatim>\<open>OS.h\<close>. The spec lists them as open-read-write-create-with-created-flag, bounded
  read, write, seek-from-end, truncate-to-zero, whole-file copy and directory-create.
  A file is its bytes; a write at the file pointer overwrites and extends (zero-filling
  a gap past the end); a resize leaves the file pointer at the new end; a copy replaces
  whatever the destination held; creating a directory that exists succeeds. Each
  primitive that reports failure can fail, which the caller of the model chooses through
  \<^verbatim>\<open>OSFaults\<close>.
\<close>

record OSFaults =
  open_fails :: bool
  read_fails :: bool
  mkdir_fails :: bool
  copy_fails :: bool
  resize_fails :: bool

definition File_Open :: "OSFaults \<Rightarrow> Disk \<Rightarrow> string \<Rightarrow> (Disk \<times> OSFile \<times> bool) option" where
  "File_Open flt d path =
     (if open_fails flt then None
      else
        (case files d path of
           None \<Rightarrow> Some (d\<lparr>files := (files d)(path \<mapsto> [])\<rparr>, \<lparr>fpath = path, fpos = 0\<rparr>, True)
         | Some _ \<Rightarrow> Some (d, \<lparr>fpath = path, fpos = 0\<rparr>, False)))"

text \<open>Returns the bytes read, the moved handle and the \<^verbatim>\<open>readError\<close> flag.\<close>

definition File_Read :: "OSFaults \<Rightarrow> Disk \<Rightarrow> OSFile \<Rightarrow> nat \<Rightarrow> string \<times> OSFile \<times> bool" where
  "File_Read flt d f n =
     (if read_fails flt then ([], f, True)
      else
        (case files d (fpath f) of
           None \<Rightarrow> ([], f, True)
         | Some bytes \<Rightarrow>
             (let got = take n (drop (fpos f) bytes)
              in (got, f\<lparr>fpos := fpos f + length got\<rparr>, False))))"

definition File_Resize :: "OSFaults \<Rightarrow> Disk \<Rightarrow> OSFile \<Rightarrow> nat \<Rightarrow> (Disk \<times> OSFile) option" where
  "File_Resize flt d f n =
     (if resize_fails flt then None
      else
        (case files d (fpath f) of
           None \<Rightarrow> None
         | Some bytes \<Rightarrow>
             Some (d\<lparr>files := (files d)(fpath f \<mapsto> take n bytes @ replicate (n - length bytes) (CHR 0x00))\<rparr>,
                   f\<lparr>fpos := n\<rparr>)))"

definition File_Copy :: "OSFaults \<Rightarrow> Disk \<Rightarrow> string \<Rightarrow> string \<Rightarrow> Disk option" where
  "File_Copy flt d src dst =
     (if copy_fails flt then None
      else
        (case files d src of
           None \<Rightarrow> None
         | Some bytes \<Rightarrow> Some (d\<lparr>files := (files d)(dst \<mapsto> bytes)\<rparr>)))"

definition Directory_Create :: "OSFaults \<Rightarrow> Disk \<Rightarrow> string \<Rightarrow> Disk option" where
  "Directory_Create flt d path =
     (if mkdir_fails flt then None else Some (d\<lparr>dirs := insert path (dirs d)\<rparr>))"

definition write_at :: "string \<Rightarrow> nat \<Rightarrow> string \<Rightarrow> string" where
  "write_at old pos bytes =
     take pos old @ replicate (pos - length old) (CHR 0x00) @ bytes
       @ drop (pos + length bytes) old"

definition File_Write :: "Disk \<Rightarrow> OSFile \<Rightarrow> string \<Rightarrow> Disk \<times> OSFile" where
  "File_Write d f bytes =
     (case files d (fpath f) of
        None \<Rightarrow> (d, f)
      | Some old \<Rightarrow>
          (d\<lparr>files := (files d)(fpath f \<mapsto> write_at old (fpos f) bytes)\<rparr>,
           f\<lparr>fpos := fpos f + length bytes\<rparr>))"

text \<open>\<^verbatim>\<open>Seek(OS::File::END, offset)\<close>: a target before the start of the file is refused.\<close>

definition File_Seek_END :: "Disk \<Rightarrow> OSFile \<Rightarrow> int \<Rightarrow> OSFile" where
  "File_Seek_END d f off =
     (case files d (fpath f) of
        None \<Rightarrow> f
      | Some bytes \<Rightarrow>
          (let target = int (length bytes) + off
           in if target < 0 then f else f\<lparr>fpos := nat target\<rparr>))"

section \<open>Sinks\<close>

text \<open>
  The \<^verbatim>\<open>for\<close> loop of \<^verbatim>\<open>WriteMessageToFile\<close> over the content: a line feed becomes
  \<^verbatim>\<open>OS_NEWLINE\<close>; a dollar sign swallows the character after it, and writes one dollar
  sign when that character is a dollar sign too.
\<close>

fun FileContentBytes :: "string \<Rightarrow> string \<Rightarrow> string" where
  "FileContentBytes nl [] = []"
| "FileContentBytes nl [c] =
     (if c = LF then nl else if c = CHR ''$'' then [] else [c])"
| "FileContentBytes nl (c # d # rest) =
     (if c = LF then nl @ FileContentBytes nl (d # rest)
      else if c = CHR ''$'' then
        (if d = CHR ''$'' then ''$'' else []) @ FileContentBytes nl rest
      else c # FileContentBytes nl (d # rest))"

definition isAppend :: "Message \<Rightarrow> bool" where
  "isAppend message = (flags message AND FLAG_APPEND \<noteq> 0)"

definition FileBuffer :: "'a Platform \<Rightarrow> Message \<Rightarrow> string" where
  "FileBuffer P message =
     (if \<not> isAppend message then prefix message else [])
       @ FileContentBytes (OS_NEWLINE P) (content message) @ OS_NEWLINE P"

definition WriteMessageToFile :: "'a Platform \<Rightarrow> Logger \<Rightarrow> World \<Rightarrow> Message \<Rightarrow> Logger \<times> World" where
  "WriteMessageToFile P L W message =
     (case m_file L of
        None \<Rightarrow> (L, W)
      | Some f \<Rightarrow>
          (let buffer = FileBuffer P message;
               off = - int (OS_NEWLINE_LENGTH P);
               f1 = (if isAppend message then File_Seek_END (disk W) f off else f);
               (d2, f2) = File_Write (disk W) f1 buffer
           in (L\<lparr>m_file := Some f2\<rparr>,
               W\<lparr>disk := d2,
                 trace := trace W
                   @ (if isAppend message then [FileSeekEnd off] else [])
                   @ [FileWrite buffer]
                   @ map (\<lambda>cb. OnWriteToFile cb (c_str (content message)) (\<not> isAppend message))
                       (m_callbacks L)\<rparr>)))"

definition WriteMessageToConsole :: "Env \<Rightarrow> Logger \<Rightarrow> World \<Rightarrow> Message \<Rightarrow> Logger \<times> World" where
  "WriteMessageToConsole E L W message =
     (if \<not> hasConsole E then (L, W)
      else
        (L, W\<lparr>trace := trace W
                @ [if isAppend message then PrintLinePlus (c_str (content message))
                   else PrintLine (c_str (content message))]
                @ map (\<lambda>cb. OnWriteToConsole cb (c_str (content message))
                         (\<not> isAppend message))
                    (m_callbacks L)\<rparr>))"

definition WriteMessage :: "'a Platform \<Rightarrow> Env \<Rightarrow> Logger \<Rightarrow> World \<Rightarrow> Message \<Rightarrow> Logger \<times> World" where
  "WriteMessage P E L W message =
     (let (L1, W1) =
            (if flags message AND FLAG_FILE \<noteq> 0 then WriteMessageToFile P L W message
             else (L, W))
      in if flags message AND FLAG_CONSOLE \<noteq> 0 then WriteMessageToConsole E L1 W1 message
         else (L1, W1))"

section \<open>Submission and drain\<close>

text \<open>
  The local \<^verbatim>\<open>currentFileVerbosity\<close> of \<^verbatim>\<open>PushMessageV\<close>: the file verbosity variable when
  it is registered, otherwise the current (console) verbosity.
\<close>

definition currentFileVerbosity :: "Logger \<Rightarrow> int" where
  "currentFileVerbosity L =
     (case cvar_fileVerbosity (m_cvars L) of
        Some v \<Rightarrow> v
      | None \<Rightarrow> GetVerbosityLevel L)"

text \<open>
  \<^verbatim>\<open>PushMessageV\<close> up to the point where the message is complete: \<^verbatim>\<open>None\<close> on either
  early return (null format, or kind above the current verbosity), otherwise the message
  with its filtered flags, prefix and content.
\<close>

definition PushMessageV_message ::
  "'a Platform \<Rightarrow> Env \<Rightarrow> Logger \<Rightarrow> ELogType \<Rightarrow> 32 word \<Rightarrow> string option \<Rightarrow> 'a \<Rightarrow> Message option" where
  "PushMessageV_message P E L ty fl format args =
     (case format of
        None \<Rightarrow> None
      | Some fmt \<Rightarrow>
          (let currentVerbosity = GetVerbosityLevel L;
               requiredVerbosity = GetRequiredVerbosity ty
           in if currentVerbosity < requiredVerbosity then None
              else
                (let fl' = (if currentFileVerbosity L < requiredVerbosity
                            then fl AND NOT FLAG_FILE else fl);
                     message = \<lparr>type = ty, flags = fl', prefix = [], content = []\<rparr>
                 in Some (BuildMessageContent P (BuildMessagePrefix E L message) fmt args))))"

definition PushMessageV ::
  "'a Platform \<Rightarrow> Env \<Rightarrow> Logger \<Rightarrow> World \<Rightarrow> ELogType \<Rightarrow> 32 word \<Rightarrow> string option \<Rightarrow> 'a
     \<Rightarrow> Logger \<times> World" where
  "PushMessageV P E L W ty fl format args =
     (case PushMessageV_message P E L ty fl format args of
        None \<Rightarrow> (L, W)
      | Some message \<Rightarrow>
          if currentThreadID E = m_mainThreadID L then WriteMessage P E L W message
          else
            (L\<lparr>m_messages := m_messages L @ [message]\<rparr>,
             W\<lparr>trace := trace W @ [MutexLock, MutexUnlock]\<rparr>))"

definition LogV :: "'a Platform \<Rightarrow> Env \<Rightarrow> Logger \<Rightarrow> World \<Rightarrow> ELogType \<Rightarrow> string option \<Rightarrow> 'a
     \<Rightarrow> Logger \<times> World" where
  "LogV P E L W ty format args = PushMessageV P E L W ty (FLAG_FILE OR FLAG_CONSOLE) format args"

definition LogPlus :: "'a Platform \<Rightarrow> Env \<Rightarrow> Logger \<Rightarrow> World \<Rightarrow> string option \<Rightarrow> 'a
     \<Rightarrow> Logger \<times> World" where
  "LogPlus P E L W format args =
     PushMessageV P E L W eMessage (FLAG_FILE OR FLAG_CONSOLE OR FLAG_APPEND) format args"

text \<open>The \<^verbatim>\<open>for\<close> loop of \<^verbatim>\<open>OnUpdate\<close> over \<^verbatim>\<open>m_messages\<close>.\<close>

fun WriteMessages :: "'a Platform \<Rightarrow> Env \<Rightarrow> Logger \<Rightarrow> World \<Rightarrow> Message list \<Rightarrow> Logger \<times> World" where
  "WriteMessages P E L W [] = (L, W)"
| "WriteMessages P E L W (message # rest) =
     (let (L1, W1) = WriteMessage P E L W message in WriteMessages P E L1 W1 rest)"

text \<open>
  \<^verbatim>\<open>OnUpdate\<close>: the lock guard is taken first and lives until the function returns, so
  the loop and the \<^verbatim>\<open>clear\<close> run between the two mutex events.
\<close>

definition OnUpdate :: "'a Platform \<Rightarrow> Env \<Rightarrow> Logger \<Rightarrow> World \<Rightarrow> Logger \<times> World" where
  "OnUpdate P E L W =
     (let W0 = W\<lparr>trace := trace W @ [MutexLock]\<rparr>;
          (L1, W1) = WriteMessages P E L W0 (m_messages L)
      in (L1\<lparr>m_messages := []\<rparr>, W1\<lparr>trace := trace W1 @ [MutexUnlock]\<rparr>))"

definition AddCallback :: "Logger \<Rightarrow> nat option \<Rightarrow> Logger" where
  "AddCallback L pCallback =
     (case pCallback of
        None \<Rightarrow> L
      | Some cb \<Rightarrow>
          if count_list (m_callbacks L) cb = 0 then L\<lparr>m_callbacks := m_callbacks L @ [cb]\<rparr>
          else L)"

definition RemoveCallback :: "Logger \<Rightarrow> nat \<Rightarrow> Logger" where
  "RemoveCallback L cb = L\<lparr>m_callbacks := removeAll cb (m_callbacks L)\<rparr>"

section \<open>Opening and rotating the log file\<close>

text \<open>
  \<^verbatim>\<open>StringTools::OSError\<close> builds the exception that \<^verbatim>\<open>OpenFile\<close> throws; the model keeps
  the message formatted from the format string and its arguments. A call that throws
  returns the error together with the disk as the calls made before the throw left it.
\<close>

datatype error = OSError string

text \<open>
  Modelled from the spec: \<^verbatim>\<open>StringView\<close> is not among the sources. \<^verbatim>\<open>Find(ch, pos)\<close>
  looks for \<^verbatim>\<open>ch\<close> from index \<^verbatim>\<open>pos\<close> on, stores the index found in \<^verbatim>\<open>pos\<close> and says
  whether there was one; here it returns the index found from the start of the view.
\<close>

fun Find :: "string \<Rightarrow> char \<Rightarrow> nat option" where
  "Find [] ch = None"
| "Find (c # cs) ch = (if c = ch then Some 0 else map_option Suc (Find cs ch))"

definition StartsWith :: "string \<Rightarrow> string \<Rightarrow> bool" where
  "StartsWith s p = (take (length p) s = p)"

definition ExtractBackupNameAttachment :: "string \<Rightarrow> string" where
  "ExtractBackupNameAttachment header =
     (let marker = ''BackupNameAttachment='' in
      if StartsWith header marker then
        (let h1 = drop (length marker) header;
             h2 = (case Find h1 DQUOTE of Some pos \<Rightarrow> drop (pos + 1) h1 | None \<Rightarrow> h1)
         in case Find h2 DQUOTE of
              Some pos \<Rightarrow> take pos h2
            | None \<Rightarrow>
                (case Find h2 CR of
                   Some pos \<Rightarrow> take pos h2
                 | None \<Rightarrow>
                     (case Find h2 LF of
                        Some pos \<Rightarrow> take pos h2
                      | None \<Rightarrow> h2)))
      else [])"

text \<open>
  The \<^verbatim>\<open>std::string backupPath\<close> of \<^verbatim>\<open>BackupLogFile\<close> as it stands when the directory
  is created, and as it stands when the file is copied. \<^verbatim>\<open>BackupLogFile\<close> hands
  \<^verbatim>\<open>backupPath.c_str()\<close> to the directory creation, to the copy and to the error
  messages; \<^verbatim>\<open>filePath\<close> is a \<^verbatim>\<open>const char*\<close> already.
\<close>

definition BackupDir :: "'a Platform \<Rightarrow> string \<Rightarrow> string" where
  "BackupDir P filePath = DirName P filePath @ [OS_PATH_SLASH P] @ ''LogBackups''"

definition BackupPath :: "'a Platform \<Rightarrow> string \<Rightarrow> string \<Rightarrow> string" where
  "BackupPath P filePath backupNameAttachment =
     BackupDir P filePath @ [OS_PATH_SLASH P]
       @ RemoveFileExtension P (BaseName P filePath)
       @ backupNameAttachment
       @ GetFileExtension P filePath"

definition BackupLogFile ::
  "'a Platform \<Rightarrow> OSFaults \<Rightarrow> Disk \<Rightarrow> OSFile \<Rightarrow> string
     \<Rightarrow> (error \<times> Disk) + (Disk \<times> OSFile)" where
  "BackupLogFile P flt d file filePath =
     (let (header, file1, readError) = File_Read flt d file 256 in
      if readError then Inl (OSError ''Failed to read the existing log file!'', d)
      else if header = [] then Inr (d, file1)
      else
        (let backupNameAttachment = ExtractBackupNameAttachment header;
             backupDir = c_str (BackupDir P filePath)
         in case Directory_Create flt d backupDir of
              None \<Rightarrow>
                Inl (OSError (''Failed to create log backup directory!'' @ [LF] @ ''=> ''
                       @ backupDir), d)
            | Some d1 \<Rightarrow>
                (let backupPath = c_str (BackupPath P filePath backupNameAttachment)
                 in case File_Copy flt d1 filePath backupPath of
                      None \<Rightarrow>
                        Inl (OSError (''Failed to copy the existing log file!'' @ [LF] @ ''<= ''
                               @ filePath @ [LF] @ ''=> '' @ backupPath), d1)
                    | Some d2 \<Rightarrow> Inr (d2, file1))))"

definition OpenFile ::
  "'a Platform \<Rightarrow> OSFaults \<Rightarrow> Logger \<Rightarrow> Disk \<Rightarrow> string
     \<Rightarrow> (error \<times> Disk) + (Logger \<times> Disk)" where
  "OpenFile P flt L d filePath =
     (case File_Open flt d filePath of
        None \<Rightarrow> Inl (OSError (''Failed to open log file!'' @ [LF] @ ''=> '' @ filePath), d)
      | Some (d0, file, created) \<Rightarrow>
          if \<not> created then
            (case BackupLogFile P flt d0 file filePath of
               Inl e \<Rightarrow> Inl e
             | Inr (d1, file1) \<Rightarrow>
                 (case File_Resize flt d1 file1 0 of
                    None \<Rightarrow>
                      Inl (OSError (''Failed to clear the existing log file!'' @ [LF] @ ''=> ''
                             @ filePath), d1)
                  | Some (d2, file2) \<Rightarrow> Inr (L\<lparr>m_file := Some file2, m_filePath := filePath\<rparr>, d2)))
          else Inr (L\<lparr>m_file := Some file, m_filePath := filePath\<rparr>, d0))"

definition CloseFile :: "Logger \<Rightarrow> Logger" where
  "CloseFile L = L\<lparr>m_file := None, m_filePath := []\<rparr>"

section \<open>Trace vocabulary and concrete instances for the evaluations\<close>

text \<open>
  The calls \<^verbatim>\<open>WriteMessageToFile\<close> and \<^verbatim>\<open>WriteMessageToConsole\<close> make for one message,
  as a function of the message, of whether a file is open and a console present, and of
  the registered listeners (\<open>WriteMessage_trace\<close> below ties it to \<open>WriteMessage\<close>).
\<close>

definition FileEvents :: "'a Platform \<Rightarrow> Logger \<Rightarrow> Message \<Rightarrow> Event list" where
  "FileEvents P L message =
     (if flags message AND FLAG_FILE \<noteq> 0 \<and> m_file L \<noteq> None then
        (if isAppend message then [FileSeekEnd (- int (OS_NEWLINE_LENGTH P))] else [])
          @ [FileWrite (FileBuffer P message)]
          @ map (\<lambda>cb. OnWriteToFile cb (c_str (content message)) (\<not> isAppend message))
              (m_callbacks L)
      else [])"

definition ConsoleEvents :: "Env \<Rightarrow> Logger \<Rightarrow> Message \<Rightarrow> Event list" where
  "ConsoleEvents E L message =
     (if flags message AND FLAG_CONSOLE \<noteq> 0 \<and> hasConsole E then
        [if isAppend message then PrintLinePlus (c_str (content message))
         else PrintLine (c_str (content message))]
          @ map (\<lambda>cb. OnWriteToConsole cb (c_str (content message)) (\<not> isAppend message))
              (m_callbacks L)
      else [])"

definition MessageEvents :: "'a Platform \<Rightarrow> Env \<Rightarrow> Logger \<Rightarrow> Message \<Rightarrow> Event list" where
  "MessageEvents P E L message = FileEvents P L message @ ConsoleEvents E L message"

text \<open>
  The drain as the spec words it, for comparison with \<open>OnUpdate\<close>: the lock is released
  before the first write, so no sink call or listener notification happens while the
  mutex is held. The flag says whether the mutex is held at the start of the trace.
\<close>

fun spec_no_io_under_lock :: "bool \<Rightarrow> Event list \<Rightarrow> bool" where
  "spec_no_io_under_lock held [] = True"
| "spec_no_io_under_lock held (MutexLock # es) = spec_no_io_under_lock True es"
| "spec_no_io_under_lock held (MutexUnlock # es) = spec_no_io_under_lock False es"
| "spec_no_io_under_lock held (e # es) = (\<not> held \<and> spec_no_io_under_lock held es)"

text \<open>
  A platform instance (carriage return and line feed as newline, a slash between path
  components), a clock reading and a small logger for the evaluations.
\<close>

definition demo_BaseName :: "string \<Rightarrow> string" where
  "demo_BaseName p = rev (takeWhile (\<lambda>c. c \<noteq> CHR ''/'') (rev p))"

definition demo_DirName :: "string \<Rightarrow> string" where
  "demo_DirName p =
     (let r = dropWhile (\<lambda>c. c \<noteq> CHR ''/'') (rev p) in if r = [] then ''.'' else rev (tl r))"

definition demo_RemoveFileExtension :: "string \<Rightarrow> string" where
  "demo_RemoveFileExtension p =
     (if CHR ''.'' \<in> set p then rev (tl (dropWhile (\<lambda>c. c \<noteq> CHR ''.'') (rev p))) else p)"

definition demo_GetFileExtension :: "string \<Rightarrow> string" where
  "demo_GetFileExtension p =
     (if CHR ''.'' \<in> set p then CHR ''.'' # rev (takeWhile (\<lambda>c. c \<noteq> CHR ''.'') (rev p))
      else [])"

definition demo_platform :: "unit Platform" where
  "demo_platform =
     \<lparr>OS_NEWLINE = [CR, LF], OS_PATH_SLASH = CHR ''/'',
      CRY_COLOR_CODE_YELLOW_STRING = ''$6'', CRY_COLOR_CODE_RED_STRING = ''$4'',
      CRY_COLOR_CODE_GRAY_STRING = ''$9'',
      FormatV = (\<lambda>fmt _. fmt),
      DirName = demo_DirName, BaseName = demo_BaseName,
      RemoveFileExtension = demo_RemoveFileExtension,
      GetFileExtension = demo_GetFileExtension\<rparr>"

definition demo_time :: DateTime where
  "demo_time =
     \<lparr>year = 2024, month = 1, day = 5, hour = 8, minute = 30, second = 15, millisecond = 7\<rparr>"

definition demo_env :: "nat \<Rightarrow> Env" where
  "demo_env tid =
     \<lparr>currentThreadID = tid, currentDateTimeLocal = demo_time, currentTimeZoneBias = 0,
      hasConsole = True\<rparr>"

definition demo_cvars :: "int \<Rightarrow> int \<Rightarrow> string \<Rightarrow> CVars" where
  "demo_cvars v fv template =
     \<lparr>cvar_verbosity = Some v, cvar_fileVerbosity = Some fv, cvar_prefix = Some template\<rparr>"

definition demo_logger :: "CVars \<Rightarrow> OSFile option \<Rightarrow> Logger" where
  "demo_logger cv file =
     \<lparr>m_verbosity = 0, m_cvars = cv, m_mainThreadID = 4, m_messages = [], m_file = file,
      m_filePath = (case file of None \<Rightarrow> [] | Some f \<Rightarrow> fpath f), m_prefix = [],
      m_callbacks = [7]\<rparr>"

definition demo_disk :: "string \<Rightarrow> Disk" where
  "demo_disk bytes = \<lparr>files = [''Server.log'' \<mapsto> bytes], dirs = {}\<rparr>"


definition demo_world :: "string \<Rightarrow> World" where
  "demo_world bytes = \<lparr>disk = demo_disk bytes, trace = []\<rparr>"

definition no_faults :: OSFaults where
  "no_faults =
     \<lparr>open_fails = False, read_fails = False, mkdir_fails = False, copy_fails = False,
      resize_fails = False\<rparr>"

section \<open>Facts about the message builders and the sinks\<close>

lemma clear_file_flag [simp]: "(fl AND NOT FLAG_FILE) AND FLAG_FILE = 0"
  by (simp add: and.assoc)

lemma clear_file_keeps_console: "(fl AND NOT FLAG_FILE) AND FLAG_CONSOLE = fl AND FLAG_CONSOLE"
proof -
  have "NOT FLAG_FILE AND FLAG_CONSOLE = FLAG_CONSOLE"
    unfolding FLAG_FILE_def FLAG_CONSOLE_def by simp
  then show ?thesis by (simp add: and.assoc)
qed

lemma clear_file_keeps_append: "(fl AND NOT FLAG_FILE) AND FLAG_APPEND = fl AND FLAG_APPEND"
proof -
  have "NOT FLAG_FILE AND FLAG_APPEND = FLAG_APPEND"
    unfolding FLAG_FILE_def FLAG_APPEND_def by simp
  then show ?thesis by (simp add: and.assoc)
qed

lemma BuildMessagePrefix_flags [simp]: "flags (BuildMessagePrefix E L m) = flags m"
  by (simp add: BuildMessagePrefix_def Let_def split: option.splits)

lemma BuildMessagePrefix_type [simp]: "type (BuildMessagePrefix E L m) = type m"
  by (simp add: BuildMessagePrefix_def Let_def split: option.splits)

lemma BuildMessagePrefix_content [simp]: "content (BuildMessagePrefix E L m) = content m"
  by (simp add: BuildMessagePrefix_def Let_def split: option.splits)

lemma BuildMessageContent_flags [simp]: "flags (BuildMessageContent P m fmt args) = flags m"
  by (simp add: BuildMessageContent_def Let_def)

lemma BuildMessageContent_prefix [simp]: "prefix (BuildMessageContent P m fmt args) = prefix m"
  by (simp add: BuildMessageContent_def Let_def)

lemma BuildMessageContent_type [simp]: "type (BuildMessageContent P m fmt args) = type m"
  by (simp add: BuildMessageContent_def Let_def)

lemma PushMessageV_message_None_iff:
  "PushMessageV_message P E L ty fl format args = None
     \<longleftrightarrow> format = None \<or> GetVerbosityLevel L < GetRequiredVerbosity ty"
  by (simp add: PushMessageV_message_def Let_def split: option.splits)

lemma PushMessageV_message_flags:
  "PushMessageV_message P E L ty fl format args = Some m \<Longrightarrow>
   flags m = (if currentFileVerbosity L < GetRequiredVerbosity ty then fl AND NOT FLAG_FILE else fl)"
  by (auto simp: PushMessageV_message_def Let_def split: option.splits if_splits)

lemma WriteMessageToFile_closed: "m_file L = None \<Longrightarrow> WriteMessageToFile P L W m = (L, W)"
  by (simp add: WriteMessageToFile_def)

lemma WriteMessageToConsole_fst [simp]: "fst (WriteMessageToConsole E L W m) = L"
  by (simp add: WriteMessageToConsole_def)

lemma WriteMessageToConsole_disk [simp]: "disk (snd (WriteMessageToConsole E L W m)) = disk W"
  by (simp add: WriteMessageToConsole_def)

lemma WriteMessageToConsole_trace:
  "flags m AND FLAG_CONSOLE \<noteq> 0 \<Longrightarrow>
   trace (snd (WriteMessageToConsole E L W m)) = trace W @ ConsoleEvents E L m"
  by (simp add: WriteMessageToConsole_def ConsoleEvents_def)

lemma WriteMessage_no_file_leg:
  assumes "flags m AND FLAG_FILE = 0 \<or> m_file L = None"
  shows "WriteMessage P E L W m =
           (if flags m AND FLAG_CONSOLE \<noteq> 0 then WriteMessageToConsole E L W m else (L, W))"
  using assms by (auto simp: WriteMessage_def WriteMessageToFile_closed)

lemma WriteMessage_no_file_leg_effects:
  assumes "flags m AND FLAG_FILE = 0 \<or> m_file L = None"
  shows "fst (WriteMessage P E L W m) = L"
    and "disk (snd (WriteMessage P E L W m)) = disk W"
    and "trace (snd (WriteMessage P E L W m)) = trace W @ ConsoleEvents E L m"
  using assms
  by (auto simp: WriteMessage_no_file_leg WriteMessageToConsole_trace ConsoleEvents_def)


lemma WriteMessageToFile_trace:
  "flags m AND FLAG_FILE \<noteq> 0 \<Longrightarrow>
   trace (snd (WriteMessageToFile P L W m)) = trace W @ FileEvents P L m"
  by (simp add: WriteMessageToFile_def FileEvents_def Let_def split: option.splits prod.splits)

lemma WriteMessageToFile_callbacks [simp]:
  "m_callbacks (fst (WriteMessageToFile P L W m)) = m_callbacks L"
  by (simp add: WriteMessageToFile_def Let_def split: option.splits prod.splits)

lemma WriteMessageToFile_messages [simp]:
  "m_messages (fst (WriteMessageToFile P L W m)) = m_messages L"
  by (simp add: WriteMessageToFile_def Let_def split: option.splits prod.splits)

lemma WriteMessageToFile_open [simp]:
  "(m_file (fst (WriteMessageToFile P L W m)) = None) = (m_file L = None)"
  by (simp add: WriteMessageToFile_def Let_def split: option.splits prod.splits)

lemma WriteMessage_callbacks [simp]:
  "m_callbacks (fst (WriteMessage P E L W m)) = m_callbacks L"
  by (simp add: WriteMessage_def Let_def split: prod.splits)
    (metis WriteMessageToFile_callbacks fst_conv)

lemma WriteMessage_messages [simp]:
  "m_messages (fst (WriteMessage P E L W m)) = m_messages L"
  by (simp add: WriteMessage_def Let_def split: prod.splits)
    (metis WriteMessageToFile_messages fst_conv)

lemma WriteMessage_open [simp]:
  "(m_file (fst (WriteMessage P E L W m)) = None) = (m_file L = None)"
  by (simp add: WriteMessage_def Let_def split: prod.splits)
    (metis WriteMessageToFile_open fst_conv)

lemma ConsoleEvents_cong:
  "m_callbacks L' = m_callbacks L \<Longrightarrow> ConsoleEvents E L' m = ConsoleEvents E L m"
  by (simp add: ConsoleEvents_def)

lemma MessageEvents_cong:
  "m_callbacks L' = m_callbacks L \<Longrightarrow> (m_file L' = None) = (m_file L = None) \<Longrightarrow>
   MessageEvents P E L' m = MessageEvents P E L m"
  by (simp add: MessageEvents_def FileEvents_def ConsoleEvents_def)

lemma WriteMessage_trace:
  "trace (snd (WriteMessage P E L W m)) = trace W @ MessageEvents P E L m"
proof -
  obtain L1 W1 where f: "WriteMessageToFile P L W m = (L1, W1)"
    by (cases "WriteMessageToFile P L W m")
  have cb: "m_callbacks L1 = m_callbacks L"
    using WriteMessageToFile_callbacks [of P L W m] f by simp
  show ?thesis
  proof (cases "flags m AND FLAG_FILE \<noteq> 0")
    case True
    have t1: "trace W1 = trace W @ FileEvents P L m"
      using WriteMessageToFile_trace [OF True, of P L W] f by simp
    show ?thesis
    proof (cases "flags m AND FLAG_CONSOLE \<noteq> 0")
      case c: True
      have "trace (snd (WriteMessageToConsole E L1 W1 m)) = trace W1 @ ConsoleEvents E L1 m"
        by (rule WriteMessageToConsole_trace [OF c])
      with True c f t1 cb show ?thesis
        by (simp add: WriteMessage_def MessageEvents_def ConsoleEvents_cong [OF cb])
    next
      case c: False
      with True f t1 show ?thesis
        by (simp add: WriteMessage_def MessageEvents_def ConsoleEvents_def)
    qed
  next
    case False
    then have nf: "flags m AND FLAG_FILE = 0 \<or> m_file L = None" by simp
    from False have "FileEvents P L m = []" by (simp add: FileEvents_def)
    then show ?thesis
      using WriteMessage_no_file_leg_effects(3) [OF nf] by (simp add: MessageEvents_def)
  qed
qed

lemma WriteMessages_trace:
  "trace (snd (WriteMessages P E L W ms)) = trace W @ concat (map (MessageEvents P E L) ms)"
proof (induction ms arbitrary: L W)
  case Nil
  then show ?case by simp
next
  case (Cons m ms)
  obtain L1 W1 where w: "WriteMessage P E L W m = (L1, W1)"
    by (cases "WriteMessage P E L W m")
  have cb: "m_callbacks L1 = m_callbacks L"
    using WriteMessage_callbacks [of P E L W m] w by simp
  have op: "(m_file L1 = None) = (m_file L = None)"
    using WriteMessage_open [of P E L W m] w by simp
  have t1: "trace W1 = trace W @ MessageEvents P E L m"
    using WriteMessage_trace [of P E L W m] w by simp
  have "map (MessageEvents P E L1) ms = map (MessageEvents P E L) ms"
    by (simp add: MessageEvents_cong [OF cb op])
  with Cons.IH [of L1 W1] w t1 show ?case by simp
qed

lemma WriteMessages_messages [simp]:
  "m_messages (fst (WriteMessages P E L W ms)) = m_messages L"
proof (induction ms arbitrary: L W)
  case Nil
  then show ?case by simp
next
  case (Cons m ms)
  obtain L1 W1 where w: "WriteMessage P E L W m = (L1, W1)"
    by (cases "WriteMessage P E L W m")
  then have "m_messages L1 = m_messages L"
    using WriteMessage_messages [of P E L W m] by simp
  with Cons.IH [of L1 W1] w show ?case by simp
qed

section \<open>The verbosity filter\<close>

text \<open>
  Claim C1. Every message kind has the required level of the fixed table (the five
  always-kinds 0, Error 1, Warning 2, Message 3, Comment 4). A submission with a format
  string is dropped by \<^verbatim>\<open>PushMessageV\<close> exactly when the current console verbosity is
  strictly below the kind's required level: then nothing is written, queued or notified;
  otherwise the built message is written at once on the owner thread and queued on any
  other. At verbosity -1 every kind is dropped, the level-0 kinds included.
\<close>

theorem C1_verbosity_filter:
  "GetRequiredVerbosity eAlways = 0 \<and> GetRequiredVerbosity eWarningAlways = 0
   \<and> GetRequiredVerbosity eErrorAlways = 0 \<and> GetRequiredVerbosity eInput = 0
   \<and> GetRequiredVerbosity eInputResponse = 0 \<and> GetRequiredVerbosity eError = 1
   \<and> GetRequiredVerbosity eWarning = 2 \<and> GetRequiredVerbosity eMessage = 3
   \<and> GetRequiredVerbosity eComment = 4
   \<and> (PushMessageV_message P E L ty fl (Some fmt) args = None
        \<longleftrightarrow> GetVerbosityLevel L < GetRequiredVerbosity ty)
   \<and> (GetVerbosityLevel L < GetRequiredVerbosity ty
        \<longrightarrow> PushMessageV P E L W ty fl (Some fmt) args = (L, W))
   \<and> (\<not> GetVerbosityLevel L < GetRequiredVerbosity ty
        \<longrightarrow> (\<exists>m. PushMessageV_message P E L ty fl (Some fmt) args = Some m
                \<and> PushMessageV P E L W ty fl (Some fmt) args =
                    (if currentThreadID E = m_mainThreadID L then WriteMessage P E L W m
                     else (L\<lparr>m_messages := m_messages L @ [m]\<rparr>,
                           W\<lparr>trace := trace W @ [MutexLock, MutexUnlock]\<rparr>))))
   \<and> (GetVerbosityLevel L = - 1 \<longrightarrow> PushMessageV P E L W ty fl format args = (L, W))"
proof -
  have iff: "PushMessageV_message P E L ty fl (Some fmt) args = None
               \<longleftrightarrow> GetVerbosityLevel L < GetRequiredVerbosity ty"
    by (simp add: PushMessageV_message_None_iff)
  have drop: "GetVerbosityLevel L < GetRequiredVerbosity ty
                \<longrightarrow> PushMessageV P E L W ty fl (Some fmt) args = (L, W)"
    using iff by (auto simp: PushMessageV_def)
  have pass: "\<not> GetVerbosityLevel L < GetRequiredVerbosity ty
        \<longrightarrow> (\<exists>m. PushMessageV_message P E L ty fl (Some fmt) args = Some m
                \<and> PushMessageV P E L W ty fl (Some fmt) args =
                    (if currentThreadID E = m_mainThreadID L then WriteMessage P E L W m
                     else (L\<lparr>m_messages := m_messages L @ [m]\<rparr>,
                           W\<lparr>trace := trace W @ [MutexLock, MutexUnlock]\<rparr>)))"
  proof
    assume "\<not> GetVerbosityLevel L < GetRequiredVerbosity ty"
    with iff obtain m where m: "PushMessageV_message P E L ty fl (Some fmt) args = Some m"
      by auto
    then show "\<exists>m. PushMessageV_message P E L ty fl (Some fmt) args = Some m
                \<and> PushMessageV P E L W ty fl (Some fmt) args =
                    (if currentThreadID E = m_mainThreadID L then WriteMessage P E L W m
                     else (L\<lparr>m_messages := m_messages L @ [m]\<rparr>,
                           W\<lparr>trace := trace W @ [MutexLock, MutexUnlock]\<rparr>))"
      by (simp add: PushMessageV_def)
  qed
  have minus: "GetVerbosityLevel L = - 1 \<longrightarrow> PushMessageV P E L W ty fl format args = (L, W)"
  proof
    assume v: "GetVerbosityLevel L = - 1"
    have "0 \<le> GetRequiredVerbosity ty" by (cases ty) simp_all
    with v have "GetVerbosityLevel L < GetRequiredVerbosity ty" by simp
    then have "PushMessageV_message P E L ty fl format args = None"
      by (simp add: PushMessageV_message_None_iff)
    then show "PushMessageV P E L W ty fl format args = (L, W)"
      by (simp add: PushMessageV_def)
  qed
  from iff drop pass minus show ?thesis by simp
qed

text \<open>
  The theorem at three loggers: verbosity -1 drops an \<^verbatim>\<open>eAlways\<close> message, verbosity 3
  lets an \<^verbatim>\<open>eMessage\<close> through, verbosity 2 drops it.
\<close>

theorem C1_verbosity_filter_witness:
  "GetVerbosityLevel (demo_logger (demo_cvars (- 1) (- 1) []) None) = - 1
   \<and> PushMessageV demo_platform (demo_env 2) (demo_logger (demo_cvars (- 1) (- 1) []) None)
        (demo_world []) eAlways FLAG_CONSOLE (Some ''hi'') ()
      = (demo_logger (demo_cvars (- 1) (- 1) []) None, demo_world [])
   \<and> \<not> GetVerbosityLevel (demo_logger (demo_cvars 3 3 []) None) < GetRequiredVerbosity eMessage
   \<and> PushMessageV_message demo_platform (demo_env 2) (demo_logger (demo_cvars 3 3 []) None)
        eMessage FLAG_CONSOLE (Some ''hi'') () \<noteq> None
   \<and> GetVerbosityLevel (demo_logger (demo_cvars 2 2 []) None) < GetRequiredVerbosity eMessage
   \<and> PushMessageV_message demo_platform (demo_env 2) (demo_logger (demo_cvars 2 2 []) None)
        eMessage FLAG_CONSOLE (Some ''hi'') () = None"
  using
    C1_verbosity_filter [of demo_platform "demo_env 2" "demo_logger (demo_cvars (- 1) (- 1) []) None"
      eAlways FLAG_CONSOLE "''hi''" "()" "demo_world []" "Some ''hi''"]
    C1_verbosity_filter [of demo_platform "demo_env 2" "demo_logger (demo_cvars 3 3 []) None"
      eMessage FLAG_CONSOLE "''hi''" "()" "demo_world []" "Some ''hi''"]
    C1_verbosity_filter [of demo_platform "demo_env 2" "demo_logger (demo_cvars 2 2 []) None"
      eMessage FLAG_CONSOLE "''hi''" "()" "demo_world []" "Some ''hi''"]
  by (simp add: GetVerbosityLevel_def demo_logger_def demo_cvars_def)

section \<open>The file verbosity gate\<close>

text \<open>
  Claim C7. The effective file verbosity is the file variable when it is registered and
  the console verbosity otherwise. For a submission that passes the console gate while
  the effective file verbosity is strictly below the kind's required level, the message
  is built with the ToFile flag cleared and every other flag kept; whenever and in
  whatever logger state that message is later written, the write leaves the logger and
  the disk as they were and makes no file call and no file notification, only the
  console calls, which are made when the console flag was given and a console exists.
\<close>

theorem C7_file_verbosity_clears_file_flag:
  "(cvar_fileVerbosity (m_cvars L) = None \<longrightarrow> currentFileVerbosity L = GetVerbosityLevel L)
   \<and> (\<forall>v. cvar_fileVerbosity (m_cvars L) = Some v \<longrightarrow> currentFileVerbosity L = v)
   \<and> (\<not> GetVerbosityLevel L < GetRequiredVerbosity ty
        \<and> currentFileVerbosity L < GetRequiredVerbosity ty
      \<longrightarrow> (\<exists>m. PushMessageV_message P E L ty fl (Some fmt) args = Some m
              \<and> flags m = fl AND NOT FLAG_FILE
              \<and> flags m AND FLAG_FILE = 0
              \<and> flags m AND FLAG_CONSOLE = fl AND FLAG_CONSOLE
              \<and> (\<forall>E' L' W'.
                    fst (WriteMessage P E' L' W' m) = L'
                    \<and> disk (snd (WriteMessage P E' L' W' m)) = disk W'
                    \<and> trace (snd (WriteMessage P E' L' W' m)) = trace W' @ ConsoleEvents E' L' m
                    \<and> FileEvents P L' m = []
                    \<and> (fl AND FLAG_CONSOLE \<noteq> 0 \<and> hasConsole E'
                         \<longrightarrow> ConsoleEvents E' L' m \<noteq> []))))"
proof -
  have mirror: "cvar_fileVerbosity (m_cvars L) = None \<longrightarrow> currentFileVerbosity L = GetVerbosityLevel L"
    by (simp add: currentFileVerbosity_def)
  have own: "\<forall>v. cvar_fileVerbosity (m_cvars L) = Some v \<longrightarrow> currentFileVerbosity L = v"
    by (simp add: currentFileVerbosity_def)
  have main: "\<exists>m. PushMessageV_message P E L ty fl (Some fmt) args = Some m
              \<and> flags m = fl AND NOT FLAG_FILE
              \<and> flags m AND FLAG_FILE = 0
              \<and> flags m AND FLAG_CONSOLE = fl AND FLAG_CONSOLE
              \<and> (\<forall>E' L' W'.
                    fst (WriteMessage P E' L' W' m) = L'
                    \<and> disk (snd (WriteMessage P E' L' W' m)) = disk W'
                    \<and> trace (snd (WriteMessage P E' L' W' m)) = trace W' @ ConsoleEvents E' L' m
                    \<and> FileEvents P L' m = []
                    \<and> (fl AND FLAG_CONSOLE \<noteq> 0 \<and> hasConsole E'
                         \<longrightarrow> ConsoleEvents E' L' m \<noteq> []))"
    if pass: "\<not> GetVerbosityLevel L < GetRequiredVerbosity ty"
      and low: "currentFileVerbosity L < GetRequiredVerbosity ty"
  proof -
    from pass obtain m where m: "PushMessageV_message P E L ty fl (Some fmt) args = Some m"
      using PushMessageV_message_None_iff [of P E L ty fl "Some fmt" args] by auto
    have fl: "flags m = fl AND NOT FLAG_FILE"
      using PushMessageV_message_flags [OF m] low by simp
    then have nofile: "flags m AND FLAG_FILE = 0" by simp
    have con: "flags m AND FLAG_CONSOLE = fl AND FLAG_CONSOLE"
      using fl by (simp add: clear_file_keeps_console)
    have later: "fst (WriteMessage P E' L' W' m) = L'
                    \<and> disk (snd (WriteMessage P E' L' W' m)) = disk W'
                    \<and> trace (snd (WriteMessage P E' L' W' m)) = trace W' @ ConsoleEvents E' L' m
                    \<and> FileEvents P L' m = []
                    \<and> (fl AND FLAG_CONSOLE \<noteq> 0 \<and> hasConsole E'
                         \<longrightarrow> ConsoleEvents E' L' m \<noteq> [])" for E' L' W'
    proof -
      have nf: "flags m AND FLAG_FILE = 0 \<or> m_file L' = None" using nofile by simp
      show ?thesis
        using WriteMessage_no_file_leg_effects [OF nf, of P E' W'] nofile con
        by (simp add: FileEvents_def ConsoleEvents_def)
    qed
    from m fl nofile con later show ?thesis by blast
  qed
  from mirror own main show ?thesis by blast
qed

text \<open>
  The theorem at a logger with console verbosity 3 and file verbosity 0, for an
  \<^verbatim>\<open>eMessage\<close> sent to both sinks.
\<close>

theorem C7_file_verbosity_clears_file_flag_witness:
  "\<not> GetVerbosityLevel (demo_logger (demo_cvars 3 0 []) (Some \<lparr>fpath = ''Server.log'', fpos = 0\<rparr>))
       < GetRequiredVerbosity eMessage
   \<and> currentFileVerbosity (demo_logger (demo_cvars 3 0 []) (Some \<lparr>fpath = ''Server.log'', fpos = 0\<rparr>))
       < GetRequiredVerbosity eMessage
   \<and> (\<exists>m. PushMessageV_message demo_platform (demo_env 4)
             (demo_logger (demo_cvars 3 0 []) (Some \<lparr>fpath = ''Server.log'', fpos = 0\<rparr>))
             eMessage (FLAG_FILE OR FLAG_CONSOLE) (Some ''hi'') () = Some m
           \<and> flags m AND FLAG_FILE = 0
           \<and> disk (snd (WriteMessage demo_platform (demo_env 4)
                 (demo_logger (demo_cvars 3 0 []) (Some \<lparr>fpath = ''Server.log'', fpos = 0\<rparr>))
                 (demo_world []) m)) = disk (demo_world [])
           \<and> ConsoleEvents (demo_env 4)
                 (demo_logger (demo_cvars 3 0 []) (Some \<lparr>fpath = ''Server.log'', fpos = 0\<rparr>)) m \<noteq> [])"
proof -
  have a: "\<not> GetVerbosityLevel (demo_logger (demo_cvars 3 0 []) (Some \<lparr>fpath = ''Server.log'', fpos = 0\<rparr>))
       < GetRequiredVerbosity eMessage"
    by (simp add: GetVerbosityLevel_def demo_logger_def demo_cvars_def)
  have b: "currentFileVerbosity (demo_logger (demo_cvars 3 0 []) (Some \<lparr>fpath = ''Server.log'', fpos = 0\<rparr>))
       < GetRequiredVerbosity eMessage"
    by (simp add: currentFileVerbosity_def demo_logger_def demo_cvars_def)
  have c: "(FLAG_FILE OR FLAG_CONSOLE) AND FLAG_CONSOLE \<noteq> 0 \<and> hasConsole (demo_env 4)"
    by (simp add: FLAG_FILE_def FLAG_CONSOLE_def demo_env_def)
  show ?thesis
    using a b c
      C7_file_verbosity_clears_file_flag [of
        "demo_logger (demo_cvars 3 0 []) (Some \<lparr>fpath = ''Server.log'', fpos = 0\<rparr>)"
        eMessage demo_platform "demo_env 4" "FLAG_FILE OR FLAG_CONSOLE" "''hi''" "()"]
    by blast
qed

section \<open>Writing while no file is open\<close>

text \<open>
  Claim C10. While no log file is open, the file leg of a write does nothing: the logger
  (queue included) and the disk are unchanged, no file call is made and no file listener
  is notified, and no error is returned. The console leg makes exactly the calls it
  makes for the same message when a file is open.
\<close>

theorem C10_file_leg_without_open_file:
  assumes closed: "m_file L = None"
  shows "WriteMessageToFile P L W m = (L, W)
       \<and> fst (WriteMessage P E L W m) = L
       \<and> disk (snd (WriteMessage P E L W m)) = disk W
       \<and> FileEvents P L m = []
       \<and> trace (snd (WriteMessage P E L W m)) = trace W @ ConsoleEvents E L m
       \<and> trace (snd (WriteMessage P E (L\<lparr>m_file := Some f\<rparr>) W m))
           = trace W @ FileEvents P (L\<lparr>m_file := Some f\<rparr>) m @ ConsoleEvents E L m"
proof -
  have nf: "flags m AND FLAG_FILE = 0 \<or> m_file L = None" using closed by simp
  have "trace (snd (WriteMessage P E (L\<lparr>m_file := Some f\<rparr>) W m))
           = trace W @ FileEvents P (L\<lparr>m_file := Some f\<rparr>) m @ ConsoleEvents E L m"
    by (simp add: WriteMessage_trace MessageEvents_def ConsoleEvents_def)
  then show ?thesis
    using WriteMessage_no_file_leg_effects [OF nf, of P E W] closed
    by (simp add: WriteMessageToFile_closed FileEvents_def)
qed

text \<open>The theorem at a logger without a file, for a message flagged for both sinks.\<close>

theorem C10_file_leg_without_open_file_witness:
  "m_file (demo_logger (demo_cvars 3 3 []) None) = None
   \<and> disk (snd (WriteMessage demo_platform (demo_env 4) (demo_logger (demo_cvars 3 3 []) None)
        (demo_world ''old'')
        \<lparr>type = eMessage, flags = FLAG_FILE OR FLAG_CONSOLE, prefix = [], content = ''hi''\<rparr>))
      = disk (demo_world ''old'')
   \<and> trace (snd (WriteMessage demo_platform (demo_env 4) (demo_logger (demo_cvars 3 3 []) None)
        (demo_world ''old'')
        \<lparr>type = eMessage, flags = FLAG_FILE OR FLAG_CONSOLE, prefix = [], content = ''hi''\<rparr>))
      = [PrintLine ''hi'', OnWriteToConsole 7 ''hi'' True]"
proof -
  have a: "m_file (demo_logger (demo_cvars 3 3 []) None) = None"
    by (simp add: demo_logger_def)
  have fl: "(FLAG_FILE OR FLAG_CONSOLE) AND FLAG_CONSOLE \<noteq> 0
            \<and> (FLAG_FILE OR FLAG_CONSOLE) AND FLAG_APPEND = 0"
    by (simp add: FLAG_FILE_def FLAG_CONSOLE_def FLAG_APPEND_def)
  show ?thesis
    using a fl C10_file_leg_without_open_file [OF a, of demo_platform "demo_world ''old''"
        "\<lparr>type = eMessage, flags = FLAG_FILE OR FLAG_CONSOLE, prefix = [], content = ''hi''\<rparr>"
        "demo_env 4"]
    by (simp add: ConsoleEvents_def isAppend_def c_str_def demo_env_def demo_logger_def
        demo_world_def)
qed

section \<open>Bytes the file sink writes for a content\<close>

text \<open>
  Claim C3, as amended. In the content written to the file a dollar sign followed by
  another dollar sign becomes one dollar sign; a dollar sign followed by any other
  character is dropped together with that character; a dollar sign in last position is
  dropped; a line feed becomes the platform newline; every other character is copied.
  For the content \<^verbatim>\<open>warn$1text$$more\<close> the bytes before the trailing newline are
  \<^verbatim>\<open>warntext$more\<close>: the pair of dollar signs leaves one dollar sign behind.
\<close>

theorem C3_file_content_bytes:
  "FileContentBytes nl (CHR ''$'' # CHR ''$'' # rest) = CHR ''$'' # FileContentBytes nl rest
   \<and> (d \<noteq> CHR ''$'' \<longrightarrow> FileContentBytes nl (CHR ''$'' # d # rest) = FileContentBytes nl rest)
   \<and> FileContentBytes nl [CHR ''$''] = []
   \<and> FileContentBytes nl (LF # rest) = nl @ FileContentBytes nl rest
   \<and> (c \<noteq> CHR ''$'' \<and> c \<noteq> LF \<longrightarrow> FileContentBytes nl (c # rest) = c # FileContentBytes nl rest)
   \<and> FileContentBytes nl ''warn$1text$$more'' = ''warntext$more''
   \<and> FileBuffer P \<lparr>type = ty, flags = fl, prefix = [], content = ''warn$1text$$more''\<rparr>
        = ''warntext$more'' @ OS_NEWLINE P"
proof -
  have lf: "FileContentBytes nl (LF # rest) = nl @ FileContentBytes nl rest"
    by (cases rest) simp_all
  have other: "c \<noteq> CHR ''$'' \<and> c \<noteq> LF \<longrightarrow> FileContentBytes nl (c # rest) = c # FileContentBytes nl rest"
    by (cases rest) simp_all
  have ex: "FileContentBytes nl ''warn$1text$$more'' = ''warntext$more''"
    by (simp add: LF_def)
  have dd: "FileContentBytes nl (CHR ''$'' # CHR ''$'' # rest) = CHR ''$'' # FileContentBytes nl rest"
    by (simp add: LF_def)
  have d1: "d \<noteq> CHR ''$'' \<longrightarrow> FileContentBytes nl (CHR ''$'' # d # rest) = FileContentBytes nl rest"
    by (simp add: LF_def)
  have l: "FileContentBytes nl [CHR ''$''] = []"
    by (simp add: LF_def)
  have fb: "FileBuffer P \<lparr>type = ty, flags = fl, prefix = [], content = ''warn$1text$$more''\<rparr>
        = ''warntext$more'' @ OS_NEWLINE P"
    by (simp add: FileBuffer_def LF_def)
  show ?thesis
    by (intro conjI dd d1 l lf other ex fb)
qed

text \<open>The theorem at the Windows newline, on pieces of the example content.\<close>

theorem C3_file_content_bytes_witness:
  "CHR ''1'' \<noteq> CHR ''$'' \<and> CHR ''w'' \<noteq> CHR ''$'' \<and> CHR ''w'' \<noteq> LF
   \<and> FileContentBytes [CR, LF] ''$1text'' = FileContentBytes [CR, LF] ''text''
   \<and> FileContentBytes [CR, LF] ''warn'' = CHR ''w'' # FileContentBytes [CR, LF] ''arn''
   \<and> FileContentBytes [CR, LF] ''warn$1text$$more'' = ''warntext$more''"
proof -
  note i = C3_file_content_bytes [of "[CR, LF]" "''text''" "CHR ''1''" "CHR ''w''" demo_platform
      eMessage 0]
  note j = C3_file_content_bytes [of "[CR, LF]" "''arn''" "CHR ''1''" "CHR ''w''" demo_platform
      eMessage 0]
  have h1: "CHR ''1'' \<noteq> CHR ''$''" by simp
  have h2: "CHR ''w'' \<noteq> CHR ''$'' \<and> CHR ''w'' \<noteq> LF" by (simp add: LF_def)
  have a: "FileContentBytes [CR, LF] ''$1text'' = FileContentBytes [CR, LF] ''text''"
    using i [THEN conjunct2, THEN conjunct1] h1 by blast
  have b: "FileContentBytes [CR, LF] ''warn'' = CHR ''w'' # FileContentBytes [CR, LF] ''arn''"
    using j [THEN conjunct2, THEN conjunct2, THEN conjunct2, THEN conjunct2, THEN conjunct1] h2
    by blast
  have c: "FileContentBytes [CR, LF] ''warn$1text$$more'' = ''warntext$more''"
    using i [THEN conjunct2, THEN conjunct2, THEN conjunct2, THEN conjunct2, THEN conjunct2,
        THEN conjunct1] .
  show ?thesis
    by (intro conjI h1 h2 [THEN conjunct1] h2 [THEN conjunct2] a b c)
qed

text \<open>
  Claim C3 as stated gives \<^verbatim>\<open>warntextmore\<close> for that content; the loop does not
  produce it.
\<close>

theorem C3_example_counterexample:
  "FileContentBytes (OS_NEWLINE demo_platform) ''warn$1text$$more'' \<noteq> ''warntextmore''"
  by (simp add: LF_def)

section \<open>Evaluations of the number formats\<close>

lemma Format_u_2024: "Format_u 4 2024 = ''2024''"
  by code_simp

lemma Format_u_1: "Format_u 2 1 = ''01''"
  by code_simp

lemma Format_u_5: "Format_u 2 5 = ''05''"
  by code_simp

lemma Format_u_8: "Format_u 2 8 = ''08''"
  by code_simp

lemma Format_u_30: "Format_u 2 30 = ''30''"
  by code_simp

lemma Format_u_15: "Format_u 2 15 = ''15''"
  by code_simp

lemma Format_u_Suc_0: "Format_u 2 (Suc 0) = ''01''"
  using Format_u_1 by simp

section \<open>Prefix expansion\<close>

text \<open>
  Claim C4. With the clock at 2024-01-05 08:30:15.007 the template \<^verbatim>\<open>%F %T \<close> expands to
  \<^verbatim>\<open>2024-01-05 08:30:15 \<close> and the template \<^verbatim>\<open>%%\<close> to \<^verbatim>\<open>%\<close>. When the prefix
  variable is not registered, empty or \<^verbatim>\<open>0\<close> the message is returned untouched, so no
  prefix is rendered, and a message without prefix contributes only its content bytes to
  the file. The prefix stored in a submitted message is the expansion followed by exactly
  one space when the expansion is not empty, and empty otherwise (for the two templates:
  \<^verbatim>\<open>2024-01-05 08:30:15 \<close> plus one space, and \<^verbatim>\<open>%\<close> plus one space).
\<close>

theorem C4_prefix_expansion:
  "ExpandPrefixTemplate E
      \<lparr>year = 2024, month = 1, day = 5, hour = 8, minute = 30, second = 15, millisecond = 7\<rparr>
      ''%F %T '' [] = ''2024-01-05 08:30:15 ''
   \<and> ExpandPrefixTemplate E time ''%%'' [] = ''%''
   \<and> (cvar_prefix (m_cvars L) = None \<or> cvar_prefix (m_cvars L) = Some []
        \<or> cvar_prefix (m_cvars L) = Some ''0''
       \<longrightarrow> BuildMessagePrefix E L m = m)
   \<and> (PushMessageV_message P E L ty fl format args = Some msg
       \<longrightarrow> prefix msg =
             (case cvar_prefix (m_cvars L) of
                None \<Rightarrow> []
              | Some template \<Rightarrow>
                  if template = [] \<or> template = ''0'' then []
                  else if ExpandPrefixTemplate E (currentDateTimeLocal E) template [] = [] then []
                  else ExpandPrefixTemplate E (currentDateTimeLocal E) template [] @ '' ''))
   \<and> (prefix m = [] \<longrightarrow> FileBuffer P m = FileContentBytes (OS_NEWLINE P) (content m) @ OS_NEWLINE P)"
proof -
  have a: "ExpandPrefixTemplate E
      \<lparr>year = 2024, month = 1, day = 5, hour = 8, minute = 30, second = 15, millisecond = 7\<rparr>
      ''%F %T '' [] = ''2024-01-05 08:30:15 ''"
    by (simp add: ExpandMessagePrefixSpecifier_def Format_u_2024 Format_u_1 Format_u_Suc_0
        Format_u_5 Format_u_8 Format_u_30 Format_u_15)
  have b: "ExpandPrefixTemplate E time ''%%'' [] = ''%''"
    by (simp add: ExpandMessagePrefixSpecifier_def)
  have c: "cvar_prefix (m_cvars L) = None \<or> cvar_prefix (m_cvars L) = Some []
        \<or> cvar_prefix (m_cvars L) = Some ''0''
       \<longrightarrow> BuildMessagePrefix E L m = m"
    by (auto simp: BuildMessagePrefix_def)
  have d: "PushMessageV_message P E L ty fl format args = Some msg
       \<longrightarrow> prefix msg =
             (case cvar_prefix (m_cvars L) of
                None \<Rightarrow> []
              | Some template \<Rightarrow>
                  if template = [] \<or> template = ''0'' then []
                  else if ExpandPrefixTemplate E (currentDateTimeLocal E) template [] = [] then []
                  else ExpandPrefixTemplate E (currentDateTimeLocal E) template [] @ '' '')"
    by (auto simp: PushMessageV_message_def BuildMessagePrefix_def Let_def
        split: option.splits if_splits)
  have e: "prefix m = [] \<longrightarrow> FileBuffer P m = FileContentBytes (OS_NEWLINE P) (content m) @ OS_NEWLINE P"
    by (simp add: FileBuffer_def)
  show ?thesis
    by (intro conjI a b c d e)
qed

text \<open>The theorem at loggers whose prefix variable holds the three templates.\<close>

theorem C4_prefix_expansion_witness:
  "cvar_prefix (m_cvars (demo_logger (demo_cvars 3 3 ''0'') None)) = Some ''0''
   \<and> BuildMessagePrefix (demo_env 4) (demo_logger (demo_cvars 3 3 ''0'') None)
        \<lparr>type = eMessage, flags = FLAG_FILE, prefix = [], content = []\<rparr>
       = \<lparr>type = eMessage, flags = FLAG_FILE, prefix = [], content = []\<rparr>
   \<and> map_option prefix (PushMessageV_message demo_platform (demo_env 4)
        (demo_logger (demo_cvars 3 3 ''%F %T '') None) eMessage FLAG_FILE (Some ''hi'') ())
       = Some ''2024-01-05 08:30:15  ''
   \<and> map_option prefix (PushMessageV_message demo_platform (demo_env 4)
        (demo_logger (demo_cvars 3 3 ''%%'') None) eMessage FLAG_FILE (Some ''hi'') ())
       = Some ''% ''"
proof -
  let ?m0 = "\<lparr>type = eMessage, flags = FLAG_FILE, prefix = [], content = []\<rparr>"
  let ?L0 = "demo_logger (demo_cvars 3 3 ''0'') None"
  let ?L1 = "demo_logger (demo_cvars 3 3 ''%F %T '') None"
  let ?L2 = "demo_logger (demo_cvars 3 3 ''%%'') None"
  have cv: "cvar_prefix (m_cvars (demo_logger (demo_cvars 3 3 template) None)) = Some template"
    for template
    by (simp add: demo_logger_def demo_cvars_def)
  have pass: "\<not> GetVerbosityLevel (demo_logger (demo_cvars 3 3 template) None)
                  < GetRequiredVerbosity eMessage" for template
    by (simp add: GetVerbosityLevel_def demo_logger_def demo_cvars_def)
  obtain m1 where m1: "PushMessageV_message demo_platform (demo_env 4) ?L1 eMessage FLAG_FILE
        (Some ''hi'') () = Some m1"
    using PushMessageV_message_None_iff [of demo_platform "demo_env 4" ?L1 eMessage FLAG_FILE
        "Some ''hi''" "()"] pass [of "''%F %T ''"]
    by auto
  obtain m2 where m2: "PushMessageV_message demo_platform (demo_env 4) ?L2 eMessage FLAG_FILE
        (Some ''hi'') () = Some m2"
    using PushMessageV_message_None_iff [of demo_platform "demo_env 4" ?L2 eMessage FLAG_FILE
        "Some ''hi''" "()"] pass [of "''%%''"]
    by auto
  have t: "currentDateTimeLocal (demo_env 4) =
      \<lparr>year = 2024, month = 1, day = 5, hour = 8, minute = 30, second = 15, millisecond = 7\<rparr>"
    by (simp add: demo_env_def demo_time_def)
  note i0 = C4_prefix_expansion [of "demo_env 4" "currentDateTimeLocal (demo_env 4)" ?L0 ?m0
      demo_platform eMessage FLAG_FILE "Some ''hi''" "()" m1]
  note i1 = C4_prefix_expansion [of "demo_env 4" "currentDateTimeLocal (demo_env 4)" ?L1 ?m0
      demo_platform eMessage FLAG_FILE "Some ''hi''" "()" m1]
  note i2 = C4_prefix_expansion [of "demo_env 4" "currentDateTimeLocal (demo_env 4)" ?L2 ?m0
      demo_platform eMessage FLAG_FILE "Some ''hi''" "()" m2]
  have e1: "ExpandPrefixTemplate (demo_env 4) (currentDateTimeLocal (demo_env 4)) ''%F %T '' []
              = ''2024-01-05 08:30:15 ''"
    using i1 [THEN conjunct1] by (simp only: t)
  have e2: "ExpandPrefixTemplate (demo_env 4) (currentDateTimeLocal (demo_env 4)) ''%%'' [] = ''%''"
    using i2 [THEN conjunct2, THEN conjunct1] .
  have a: "BuildMessagePrefix (demo_env 4) ?L0 ?m0 = ?m0"
    using i0 [THEN conjunct2, THEN conjunct2, THEN conjunct1] cv [of "''0''"] by blast
  have p1: "prefix m1 = ''2024-01-05 08:30:15  ''"
    using i1 [THEN conjunct2, THEN conjunct2, THEN conjunct2, THEN conjunct1] m1
    by (simp add: cv e1 del: ExpandPrefixTemplate.simps)
  have p2: "prefix m2 = ''% ''"
    using i2 [THEN conjunct2, THEN conjunct2, THEN conjunct2, THEN conjunct1] m2
    by (simp add: cv e2 del: ExpandPrefixTemplate.simps)
  have q1: "map_option prefix (PushMessageV_message demo_platform (demo_env 4) ?L1 eMessage
      FLAG_FILE (Some ''hi'') ()) = Some ''2024-01-05 08:30:15  ''"
    by (simp only: m1 p1 option.map)
  have q2: "map_option prefix (PushMessageV_message demo_platform (demo_env 4) ?L2 eMessage
      FLAG_FILE (Some ''hi'') ()) = Some ''% ''"
    by (simp only: m2 p2 option.map)
  show ?thesis
    by (intro conjI cv a q1 q2)
qed

section \<open>Append writes\<close>

lemma write_at_end: "write_at old (length old) bytes = old @ bytes"
  by (simp add: write_at_def)

lemma write_at_over_tail:
  assumes "n \<le> length old" and "length old \<le> n + length bytes"
  shows "write_at old n bytes = take n old @ bytes"
  using assms by (simp add: write_at_def)

lemma WriteMessageToFile_new_line:
  assumes "m_file L = Some f" and "files (disk W) (fpath f) = Some old"
    and "fpos f = length old" and "\<not> isAppend m"
  shows "m_file (fst (WriteMessageToFile P L W m))
           = Some (f\<lparr>fpos := length (old @ FileBuffer P m)\<rparr>)"
    and "files (disk (snd (WriteMessageToFile P L W m)))
           = (files (disk W))(fpath f \<mapsto> old @ FileBuffer P m)"
  using assms
  by (simp_all add: WriteMessageToFile_def File_Write_def write_at_end Let_def)

lemma WriteMessageToFile_append:
  assumes "m_file L = Some f" and "files (disk W) (fpath f) = Some (body @ OS_NEWLINE P)"
    and "isAppend m"
  shows "files (disk (snd (WriteMessageToFile P L W m)))
           = (files (disk W))(fpath f \<mapsto> body @ FileBuffer P m)"
proof -
  let ?nl = "OS_NEWLINE P"
  let ?old = "body @ ?nl"
  have seek: "File_Seek_END (disk W) f (- int (OS_NEWLINE_LENGTH P)) = f\<lparr>fpos := length body\<rparr>"
    using assms(2) by (simp add: File_Seek_END_def OS_NEWLINE_LENGTH_def Let_def)
  have len: "length ?old \<le> length body + length (FileBuffer P m)"
    by (simp add: FileBuffer_def)
  have "write_at ?old (length body) (FileBuffer P m) = body @ FileBuffer P m"
    using write_at_over_tail [of "length body" ?old "FileBuffer P m"] len by simp
  then show ?thesis
    using assms seek
    by (simp add: WriteMessageToFile_def File_Write_def Let_def)
qed

lemma FileBuffer_length: "length (OS_NEWLINE P) \<le> length (FileBuffer P m)"
  by (simp add: FileBuffer_def)

lemma WriteMessageToFile_keeps_end:
  assumes op: "m_file L = Some f" and ex: "files (disk W) (fpath f) = Some old"
    and eof: "fpos f = length old"
  shows "\<exists>f' new. m_file (fst (WriteMessageToFile P L W m)) = Some f'
           \<and> fpath f' = fpath f
           \<and> files (disk (snd (WriteMessageToFile P L W m))) (fpath f) = Some new
           \<and> fpos f' = length new"
proof (cases "isAppend m \<and> length (OS_NEWLINE P) \<le> length old")
  case True
  let ?n = "length old - length (OS_NEWLINE P)"
  have seek: "File_Seek_END (disk W) f (- int (OS_NEWLINE_LENGTH P)) = f\<lparr>fpos := ?n\<rparr>"
    using ex True by (simp add: File_Seek_END_def OS_NEWLINE_LENGTH_def Let_def nat_diff_distrib')
  have "?n \<le> length old" by simp
  moreover have "length old \<le> ?n + length (FileBuffer P m)"
    using FileBuffer_length [of P m] True by simp
  ultimately have w: "write_at old ?n (FileBuffer P m) = take ?n old @ FileBuffer P m"
    by (rule write_at_over_tail)
  have "length (take ?n old @ FileBuffer P m) = ?n + length (FileBuffer P m)"
    by simp
  then show ?thesis
    using op ex True seek w
    by (simp add: WriteMessageToFile_def File_Write_def Let_def)
next
  case False
  have seek: "isAppend m \<Longrightarrow> File_Seek_END (disk W) f (- int (OS_NEWLINE_LENGTH P)) = f"
    using ex False by (simp add: File_Seek_END_def OS_NEWLINE_LENGTH_def Let_def)
  show ?thesis
    using op ex eof seek
    by (cases "isAppend m")
      (simp_all add: WriteMessageToFile_def File_Write_def Let_def write_at_end)
qed

text \<open>
  Claim C2, as amended. The prefix of a submitted message is rendered without regard
  to the Append flag, so an Append message carries the same prefix as any other; it is the
  file sink that leaves the prefix of an Append message out of the bytes it writes. With
  the file pointer at the end of the file, writing a non-Append message and then an
  Append message leaves the file ending in the first message's prefix and content bytes,
  directly followed by the second message's content bytes and one newline. Every write
  that starts with the file pointer at the end of the file leaves it at the end.
\<close>

theorem C2_append_after_line:
  "map_option prefix (PushMessageV_message P E L ty (fl OR FLAG_APPEND) format args)
     = map_option prefix (PushMessageV_message P E L ty fl format args)
   \<and> (isAppend m \<longrightarrow> FileBuffer P m = FileContentBytes (OS_NEWLINE P) (content m) @ OS_NEWLINE P)
   \<and> (m_file L = Some f \<and> files (disk W) (fpath f) = Some old \<and> fpos f = length old
        \<and> \<not> isAppend m1 \<and> isAppend m2
      \<longrightarrow> files (disk (snd (WriteMessageToFile P (fst (WriteMessageToFile P L W m1))
                              (snd (WriteMessageToFile P L W m1)) m2))) (fpath f)
            = Some (old @ prefix m1 @ FileContentBytes (OS_NEWLINE P) (content m1)
                      @ FileContentBytes (OS_NEWLINE P) (content m2) @ OS_NEWLINE P))
   \<and> (m_file L = Some f \<and> files (disk W) (fpath f) = Some old \<and> fpos f = length old
      \<longrightarrow> (\<exists>f' new. m_file (fst (WriteMessageToFile P L W m)) = Some f'
             \<and> fpath f' = fpath f
             \<and> files (disk (snd (WriteMessageToFile P L W m))) (fpath f) = Some new
             \<and> fpos f' = length new))"
proof -
  have a: "map_option prefix (PushMessageV_message P E L ty (fl OR FLAG_APPEND) format args)
     = map_option prefix (PushMessageV_message P E L ty fl format args)"
    by (simp add: PushMessageV_message_def BuildMessagePrefix_def Let_def split: option.splits)
  have b: "isAppend m \<longrightarrow> FileBuffer P m = FileContentBytes (OS_NEWLINE P) (content m) @ OS_NEWLINE P"
    by (simp add: FileBuffer_def)
  have c: "files (disk (snd (WriteMessageToFile P (fst (WriteMessageToFile P L W m1))
                              (snd (WriteMessageToFile P L W m1)) m2))) (fpath f)
            = Some (old @ prefix m1 @ FileContentBytes (OS_NEWLINE P) (content m1)
                      @ FileContentBytes (OS_NEWLINE P) (content m2) @ OS_NEWLINE P)"
    if op: "m_file L = Some f" and ex: "files (disk W) (fpath f) = Some old"
      and eof: "fpos f = length old" and n1: "\<not> isAppend m1" and a2: "isAppend m2"
  proof -
    let ?L1 = "fst (WriteMessageToFile P L W m1)"
    let ?W1 = "snd (WriteMessageToFile P L W m1)"
    let ?body = "old @ prefix m1 @ FileContentBytes (OS_NEWLINE P) (content m1)"
    have f1: "m_file ?L1 = Some (f\<lparr>fpos := length (old @ FileBuffer P m1)\<rparr>)"
      by (rule WriteMessageToFile_new_line(1) [OF op ex eof n1])
    have d1: "files (disk ?W1) = (files (disk W))(fpath f \<mapsto> old @ FileBuffer P m1)"
      by (rule WriteMessageToFile_new_line(2) [OF op ex eof n1])
    have b1: "old @ FileBuffer P m1 = ?body @ OS_NEWLINE P"
      using n1 by (simp add: FileBuffer_def)
    have d1': "files (disk ?W1) (fpath (f\<lparr>fpos := length (old @ FileBuffer P m1)\<rparr>))
                 = Some (?body @ OS_NEWLINE P)"
      using d1 b1 by simp
    have "files (disk (snd (WriteMessageToFile P ?L1 ?W1 m2)))
            = (files (disk ?W1))(fpath (f\<lparr>fpos := length (old @ FileBuffer P m1)\<rparr>)
                 \<mapsto> ?body @ FileBuffer P m2)"
      by (rule WriteMessageToFile_append [OF f1 d1' a2])
    then show ?thesis using a2 by (simp add: FileBuffer_def)
  qed
  have d: "m_file L = Some f \<and> files (disk W) (fpath f) = Some old \<and> fpos f = length old
      \<longrightarrow> (\<exists>f' new. m_file (fst (WriteMessageToFile P L W m)) = Some f'
             \<and> fpath f' = fpath f
             \<and> files (disk (snd (WriteMessageToFile P L W m))) (fpath f) = Some new
             \<and> fpos f' = length new)"
    using WriteMessageToFile_keeps_end [of L f W old P m] by blast
  show ?thesis
    using a b c d by blast
qed


text \<open>The theorem at an empty open file, for the contents \<^verbatim>\<open>ab\<close> and \<^verbatim>\<open>cd\<close>.\<close>

theorem C2_append_after_line_witness:
  "isAppend \<lparr>type = eMessage, flags = FLAG_FILE OR FLAG_APPEND, prefix = ''% '', content = ''cd''\<rparr>
   \<and> \<not> isAppend \<lparr>type = eMessage, flags = FLAG_FILE, prefix = ''% '', content = ''ab''\<rparr>
   \<and> FileBuffer demo_platform
        \<lparr>type = eMessage, flags = FLAG_FILE OR FLAG_APPEND, prefix = ''% '', content = ''cd''\<rparr>
       = ''cd'' @ [CR, LF]
   \<and> files (disk (snd (WriteMessageToFile demo_platform
        (fst (WriteMessageToFile demo_platform
           (demo_logger (demo_cvars 3 3 ''%%'') (Some \<lparr>fpath = ''Server.log'', fpos = 0\<rparr>))
           (demo_world [])
           \<lparr>type = eMessage, flags = FLAG_FILE, prefix = ''% '', content = ''ab''\<rparr>))
        (snd (WriteMessageToFile demo_platform
           (demo_logger (demo_cvars 3 3 ''%%'') (Some \<lparr>fpath = ''Server.log'', fpos = 0\<rparr>))
           (demo_world [])
           \<lparr>type = eMessage, flags = FLAG_FILE, prefix = ''% '', content = ''ab''\<rparr>))
        \<lparr>type = eMessage, flags = FLAG_FILE OR FLAG_APPEND, prefix = ''% '', content = ''cd''\<rparr>)))
        ''Server.log''
       = Some (''% abcd'' @ [CR, LF])"
proof -
  let ?m1 = "\<lparr>type = eMessage, flags = FLAG_FILE, prefix = ''% '', content = ''ab''\<rparr>"
  let ?m2 = "\<lparr>type = eMessage, flags = FLAG_FILE OR FLAG_APPEND, prefix = ''% '', content = ''cd''\<rparr>"
  let ?f = "\<lparr>fpath = ''Server.log'', fpos = 0\<rparr>"
  let ?L = "demo_logger (demo_cvars 3 3 ''%%'') (Some ?f)"
  have a2: "isAppend ?m2"
    by (simp add: isAppend_def FLAG_FILE_def FLAG_APPEND_def)
  have n1: "\<not> isAppend ?m1"
    by (simp add: isAppend_def FLAG_FILE_def FLAG_APPEND_def)
  have hyp: "m_file ?L = Some ?f \<and> files (disk (demo_world [])) (fpath ?f) = Some []
      \<and> fpos ?f = length ([] :: string) \<and> \<not> isAppend ?m1 \<and> isAppend ?m2"
    using a2 n1 by (simp add: demo_logger_def demo_world_def demo_disk_def)
  note i = C2_append_after_line [of demo_platform "demo_env 4" ?L eMessage FLAG_FILE
      "Some ''hi''" "()" ?m2 ?f "demo_world []" "[]" ?m1]
  have nl: "OS_NEWLINE demo_platform = [CR, LF]"
    by (simp add: demo_platform_def)
  have c1: "FileContentBytes [CR, LF] ''ab'' = ''ab''"
    by (simp add: LF_def)
  have c2: "FileContentBytes [CR, LF] ''cd'' = ''cd''"
    by (simp add: LF_def)
  have b: "FileBuffer demo_platform ?m2 = ''cd'' @ [CR, LF]"
    using i [THEN conjunct2, THEN conjunct1] a2 by (simp add: nl c2 del: FileContentBytes.simps)
  have c: "files (disk (snd (WriteMessageToFile demo_platform
        (fst (WriteMessageToFile demo_platform ?L (demo_world []) ?m1))
        (snd (WriteMessageToFile demo_platform ?L (demo_world []) ?m1)) ?m2))) ''Server.log''
       = Some (''% abcd'' @ [CR, LF])"
    using i [THEN conjunct2, THEN conjunct2, THEN conjunct1] hyp
    by (simp add: nl c1 c2 del: FileContentBytes.simps)
  show ?thesis
    by (intro conjI a2 n1 b c)
qed

text \<open>
  Claim C2 as stated says that no prefix is computed for an Append submission. With the
  prefix template \<^verbatim>\<open>%%\<close>, the message that \<^verbatim>\<open>LogPlus\<close> queues from another thread
  carries the prefix \<^verbatim>\<open>%\<close> and a space.
\<close>

theorem C2_append_prefix_counterexample:
  "map prefix (m_messages (fst (LogPlus demo_platform (demo_env 9)
      (demo_logger (demo_cvars 3 3 ''%%'') None) (demo_world []) (Some ''hi'') ())))
     = [''% '']"
  by (simp add: LogPlus_def PushMessageV_def PushMessageV_message_def BuildMessagePrefix_def
      BuildMessageContent_def GetVerbosityLevel_def currentFileVerbosity_def
      ExpandMessagePrefixSpecifier_def demo_logger_def demo_cvars_def demo_env_def Let_def)

section \<open>Drain\<close>

lemma OnUpdate_trace:
  "trace (snd (OnUpdate P E L W))
     = trace W @ [MutexLock] @ concat (map (MessageEvents P E L) (m_messages L)) @ [MutexUnlock]"
proof -
  let ?W0 = "W\<lparr>trace := trace W @ [MutexLock]\<rparr>"
  obtain L1 W1 where w: "WriteMessages P E L ?W0 (m_messages L) = (L1, W1)"
    by (cases "WriteMessages P E L ?W0 (m_messages L)")
  have "trace W1 = trace ?W0 @ concat (map (MessageEvents P E L) (m_messages L))"
    using WriteMessages_trace [of P E L ?W0 "m_messages L"] w by simp
  with w show ?thesis by (simp add: OnUpdate_def Let_def)
qed

lemma OnUpdate_messages: "m_messages (fst (OnUpdate P E L W)) = []"
  by (simp add: OnUpdate_def Let_def split: prod.splits)

text \<open>
  Claim C8, as amended. \<^verbatim>\<open>OnUpdate\<close> takes the queue lock, then, still holding it, makes
  the sink calls of every queued message in queue order, empties the queue, and releases
  the lock on return. A submission from another thread takes the lock only around the
  append to the queue.
\<close>

theorem C8_drain_under_lock:
  "m_messages (fst (OnUpdate P E L W)) = []
   \<and> trace (snd (OnUpdate P E L W))
       = trace W @ [MutexLock] @ concat (map (MessageEvents P E L) (m_messages L))
           @ [MutexUnlock]
   \<and> (currentThreadID E \<noteq> m_mainThreadID L
        \<and> PushMessageV_message P E L ty fl format args = Some m
      \<longrightarrow> PushMessageV P E L W ty fl format args
            = (L\<lparr>m_messages := m_messages L @ [m]\<rparr>,
               W\<lparr>trace := trace W @ [MutexLock, MutexUnlock]\<rparr>))"
proof -
  have push: "currentThreadID E \<noteq> m_mainThreadID L
        \<and> PushMessageV_message P E L ty fl format args = Some m
      \<longrightarrow> PushMessageV P E L W ty fl format args
            = (L\<lparr>m_messages := m_messages L @ [m]\<rparr>,
               W\<lparr>trace := trace W @ [MutexLock, MutexUnlock]\<rparr>)"
    by (simp add: PushMessageV_def)
  show ?thesis
    by (intro conjI OnUpdate_messages OnUpdate_trace push)
qed

text \<open>The theorem at a submission from thread 9 to a logger owned by thread 4.\<close>

theorem C8_drain_under_lock_witness:
  "currentThreadID (demo_env 9) \<noteq> m_mainThreadID (demo_logger (demo_cvars 3 3 []) None)
   \<and> m_messages (fst (PushMessageV demo_platform (demo_env 9)
        (demo_logger (demo_cvars 3 3 []) None) (demo_world []) eMessage FLAG_CONSOLE
        (Some ''hi'') ()))
      = [\<lparr>type = eMessage, flags = FLAG_CONSOLE, prefix = [], content = ''hi''\<rparr>]
   \<and> trace (snd (PushMessageV demo_platform (demo_env 9)
        (demo_logger (demo_cvars 3 3 []) None) (demo_world []) eMessage FLAG_CONSOLE
        (Some ''hi'') ()))
      = [MutexLock, MutexUnlock]"
proof -
  let ?L = "demo_logger (demo_cvars 3 3 []) None"
  let ?m = "\<lparr>type = eMessage, flags = FLAG_CONSOLE, prefix = [], content = ''hi''\<rparr>"
  have t: "currentThreadID (demo_env 9) \<noteq> m_mainThreadID ?L"
    by (simp add: demo_env_def demo_logger_def)
  have m: "PushMessageV_message demo_platform (demo_env 9) ?L eMessage FLAG_CONSOLE
      (Some ''hi'') () = Some ?m"
    by (simp add: PushMessageV_message_def BuildMessagePrefix_def BuildMessageContent_def
        GetVerbosityLevel_def currentFileVerbosity_def demo_logger_def demo_cvars_def
        demo_platform_def Let_def)
  have p: "PushMessageV demo_platform (demo_env 9) ?L (demo_world []) eMessage FLAG_CONSOLE
      (Some ''hi'') ()
      = (?L\<lparr>m_messages := m_messages ?L @ [?m]\<rparr>,
         (demo_world [])\<lparr>trace := trace (demo_world []) @ [MutexLock, MutexUnlock]\<rparr>)"
    using C8_drain_under_lock [of demo_platform "demo_env 9" ?L "demo_world []" eMessage
        FLAG_CONSOLE "Some ''hi''" "()" ?m] t m
    by blast
  have q: "m_messages (fst (PushMessageV demo_platform (demo_env 9) ?L (demo_world []) eMessage
      FLAG_CONSOLE (Some ''hi'') ())) = [?m]"
    unfolding p by (simp add: demo_logger_def)
  have r: "trace (snd (PushMessageV demo_platform (demo_env 9) ?L (demo_world []) eMessage
      FLAG_CONSOLE (Some ''hi'') ())) = [MutexLock, MutexUnlock]"
    unfolding p by (simp add: demo_world_def)
  show ?thesis
    by (intro conjI t q r)
qed

text \<open>
  Claim C8 as stated has the lock released before the first write. Draining a queue that
  holds one console message prints it between taking and releasing the mutex.
\<close>

theorem C8_write_while_locked_counterexample:
  "trace (snd (OnUpdate demo_platform (demo_env 4)
      ((demo_logger (demo_cvars 3 3 []) None)
         \<lparr>m_messages := [\<lparr>type = eMessage, flags = FLAG_CONSOLE, prefix = [], content = ''hi''\<rparr>]\<rparr>)
      (demo_world [])))
     = [MutexLock, PrintLine ''hi'', OnWriteToConsole 7 ''hi'' True, MutexUnlock]
   \<and> \<not> spec_no_io_under_lock False (trace (snd (OnUpdate demo_platform (demo_env 4)
      ((demo_logger (demo_cvars 3 3 []) None)
         \<lparr>m_messages := [\<lparr>type = eMessage, flags = FLAG_CONSOLE, prefix = [], content = ''hi''\<rparr>]\<rparr>)
      (demo_world []))))"
proof -
  have t: "trace (snd (OnUpdate demo_platform (demo_env 4)
      ((demo_logger (demo_cvars 3 3 []) None)
         \<lparr>m_messages := [\<lparr>type = eMessage, flags = FLAG_CONSOLE, prefix = [], content = ''hi''\<rparr>]\<rparr>)
      (demo_world [])))
     = [MutexLock, PrintLine ''hi'', OnWriteToConsole 7 ''hi'' True, MutexUnlock]"
    by (simp add: OnUpdate_trace MessageEvents_def FileEvents_def ConsoleEvents_def isAppend_def
        c_str_def FLAG_CONSOLE_def FLAG_FILE_def FLAG_APPEND_def demo_logger_def demo_env_def
        demo_world_def)
  show ?thesis
    unfolding t by simp
qed

section \<open>Opening and rotating: facts and claims\<close>

lemma c_str_no_NUL: "CHR 0x00 \<notin> set s \<Longrightarrow> c_str s = s"
  by (auto simp: c_str_def)

lemma Find_None_iff: "Find xs ch = None \<longleftrightarrow> ch \<notin> set xs"
  by (induction xs) auto

lemma Find_first: "ch \<notin> set pre \<Longrightarrow> Find (pre @ ch # rest) ch = Some (length pre)"
  by (induction pre) auto

lemma StartsWith_append [simp]: "StartsWith (p @ s) p"
  by (simp add: StartsWith_def)

lemma Extract_no_marker:
  "\<not> StartsWith header ''BackupNameAttachment='' \<Longrightarrow> ExtractBackupNameAttachment header = []"
  by (simp add: ExtractBackupNameAttachment_def Let_def)

lemma Extract_after_marker:
  "ExtractBackupNameAttachment (''BackupNameAttachment='' @ h1) =
     (let h2 = (case Find h1 DQUOTE of Some pos \<Rightarrow> drop (pos + 1) h1 | None \<Rightarrow> h1)
      in case Find h2 DQUOTE of
           Some pos \<Rightarrow> take pos h2
         | None \<Rightarrow>
             (case Find h2 CR of
                Some pos \<Rightarrow> take pos h2
              | None \<Rightarrow> (case Find h2 LF of Some pos \<Rightarrow> take pos h2 | None \<Rightarrow> h2)))"
proof -
  have "StartsWith (''BackupNameAttachment='' @ h1) ''BackupNameAttachment=''"
    by (rule StartsWith_append)
  moreover have "drop (length ''BackupNameAttachment='') (''BackupNameAttachment='' @ h1) = h1"
    by simp
  ultimately show ?thesis
    unfolding ExtractBackupNameAttachment_def Let_def by (simp only: if_True)
qed

lemma Extract_quoted:
  assumes "DQUOTE \<notin> set pre" and "DQUOTE \<notin> set v"
  shows "ExtractBackupNameAttachment
           (''BackupNameAttachment='' @ pre @ [DQUOTE] @ v @ [DQUOTE] @ rest) = v"
proof -
  have 1: "Find (pre @ DQUOTE # v @ DQUOTE # rest) DQUOTE = Some (length pre)"
    using Find_first [OF assms(1), of "v @ DQUOTE # rest"] by simp
  have 2: "Find (v @ DQUOTE # rest) DQUOTE = Some (length v)"
    using Find_first [OF assms(2), of rest] by simp
  show ?thesis
    unfolding Extract_after_marker by (simp add: 1 2 Let_def)
qed

lemma Extract_open_quote_CR:
  assumes "DQUOTE \<notin> set pre" and "DQUOTE \<notin> set v" and "DQUOTE \<notin> set rest"
    and "CR \<notin> set v"
  shows "ExtractBackupNameAttachment
           (''BackupNameAttachment='' @ pre @ [DQUOTE] @ v @ [CR] @ rest) = v"
proof -
  have ne: "CR \<noteq> DQUOTE" by (simp add: CR_def DQUOTE_def)
  have 1: "Find (pre @ DQUOTE # v @ CR # rest) DQUOTE = Some (length pre)"
    using Find_first [OF assms(1), of "v @ CR # rest"] by simp
  have 2: "Find (v @ CR # rest) DQUOTE = None"
    using assms ne by (simp add: Find_None_iff)
  have 3: "Find (v @ CR # rest) CR = Some (length v)"
    using Find_first [OF assms(4), of rest] by simp
  show ?thesis
    unfolding Extract_after_marker by (simp add: 1 2 3 Let_def)
qed

lemma Extract_open_quote_LF:
  assumes "DQUOTE \<notin> set pre" and "DQUOTE \<notin> set v" and "DQUOTE \<notin> set rest"
    and "CR \<notin> set v" and "CR \<notin> set rest" and "LF \<notin> set v"
  shows "ExtractBackupNameAttachment
           (''BackupNameAttachment='' @ pre @ [DQUOTE] @ v @ [LF] @ rest) = v"
proof -
  have ne: "LF \<noteq> DQUOTE" "LF \<noteq> CR" by (simp_all add: CR_def LF_def DQUOTE_def)
  have 1: "Find (pre @ DQUOTE # v @ LF # rest) DQUOTE = Some (length pre)"
    using Find_first [OF assms(1), of "v @ LF # rest"] by simp
  have 2: "Find (v @ LF # rest) DQUOTE = None"
    using assms ne by (simp add: Find_None_iff)
  have 3: "Find (v @ LF # rest) CR = None"
    using assms ne by (simp add: Find_None_iff)
  have 4: "Find (v @ LF # rest) LF = Some (length v)"
    using Find_first [OF assms(6), of rest] by simp
  show ?thesis
    unfolding Extract_after_marker by (simp add: 1 2 3 4 Let_def)
qed



lemma OpenFile_existing_nonempty:
  assumes "\<not> open_fails flt" and "\<not> read_fails flt" and "\<not> mkdir_fails flt"
    and "\<not> copy_fails flt" and "\<not> resize_fails flt"
    and "files d p = Some c" and "c \<noteq> []"
  shows "OpenFile P flt L d p
           = Inr (L\<lparr>m_file := Some \<lparr>fpath = p, fpos = 0\<rparr>, m_filePath := p\<rparr>,
                  d\<lparr>dirs := insert (c_str (BackupDir P p)) (dirs d),
                    files := (files d)
                      (c_str (BackupPath P p (ExtractBackupNameAttachment (take 256 c))) \<mapsto> c,
                       p \<mapsto> [])\<rparr>)"
  using assms
  by (simp add: OpenFile_def File_Open_def BackupLogFile_def File_Read_def File_Resize_def
      Directory_Create_def File_Copy_def Let_def)


lemma demo_BackupPath_tagged:
  "c_str (BackupPath demo_platform ''Server.log'' ''_7'') = ''./LogBackups/Server_7.log''"
  by (simp add: c_str_def BackupPath_def BackupDir_def demo_platform_def demo_DirName_def
      demo_BaseName_def demo_RemoveFileExtension_def demo_GetFileExtension_def)

lemma demo_BackupDir: "c_str (BackupDir demo_platform ''Server.log'') = ''./LogBackups''"
  by (simp add: c_str_def BackupDir_def demo_platform_def demo_DirName_def)



lemma no_faults_simps [simp]:
  "\<not> open_fails no_faults" "\<not> read_fails no_faults" "\<not> mkdir_fails no_faults"
  "\<not> copy_fails no_faults" "\<not> resize_fails no_faults"
  by (simp_all add: no_faults_def)







text \<open>
  Claim C6, as amended. The attachment is taken from the first 256 bytes of the existing
  file, and only when they begin with \<^verbatim>\<open>BackupNameAttachment=\<close>; otherwise it is empty,
  also when the marker stands on a later line. When the marker is followed by a double
  quote and a value free of double quote, carriage return and line feed, the attachment
  is that value if the value is followed by a double quote, or by a carriage return with
  no double quote after it, or by a line feed with neither double quote nor carriage
  return after it. The backup is copied to the C string of directory,
  \<^verbatim>\<open>LogBackups\<close>, base name without extension, attachment, extension, which is that
  whole path when it holds no NUL byte.
\<close>

theorem C6_backup_name_attachment:
  "(\<not> StartsWith header ''BackupNameAttachment='' \<longrightarrow> ExtractBackupNameAttachment header = [])
   \<and> (DQUOTE \<notin> set v \<and> CR \<notin> set v \<and> LF \<notin> set v
        \<longrightarrow> ExtractBackupNameAttachment
              (''BackupNameAttachment='' @ [DQUOTE] @ v @ [DQUOTE] @ rest) = v)
   \<and> (DQUOTE \<notin> set v \<and> CR \<notin> set v \<and> LF \<notin> set v \<and> DQUOTE \<notin> set rest
        \<longrightarrow> ExtractBackupNameAttachment
              (''BackupNameAttachment='' @ [DQUOTE] @ v @ [CR] @ rest) = v)
   \<and> (DQUOTE \<notin> set v \<and> CR \<notin> set v \<and> LF \<notin> set v \<and> DQUOTE \<notin> set rest
        \<and> CR \<notin> set rest
        \<longrightarrow> ExtractBackupNameAttachment
              (''BackupNameAttachment='' @ [DQUOTE] @ v @ [LF] @ rest) = v)
   \<and> BackupPath P p a
       = DirName P p @ [OS_PATH_SLASH P] @ ''LogBackups'' @ [OS_PATH_SLASH P]
           @ RemoveFileExtension P (BaseName P p) @ a @ GetFileExtension P p
   \<and> (CHR 0x00 \<notin> set (BackupPath P p a) \<longrightarrow> c_str (BackupPath P p a) = BackupPath P p a)
   \<and> (\<not> open_fails flt \<and> \<not> read_fails flt \<and> \<not> mkdir_fails flt \<and> \<not> copy_fails flt
        \<and> \<not> resize_fails flt \<and> files d p = Some c \<and> c \<noteq> []
        \<longrightarrow> (\<exists>L' d'. OpenFile P flt L d p = Inr (L', d')
               \<and> files d'
                   = (files d)
                       (c_str (BackupPath P p (ExtractBackupNameAttachment (take 256 c))) \<mapsto> c,
                        p \<mapsto> [])))"
proof -
  have a: "\<not> StartsWith header ''BackupNameAttachment='' \<longrightarrow> ExtractBackupNameAttachment header = []"
    by (simp add: Extract_no_marker)
  have b: "DQUOTE \<notin> set v \<and> CR \<notin> set v \<and> LF \<notin> set v
        \<longrightarrow> ExtractBackupNameAttachment
              (''BackupNameAttachment='' @ [DQUOTE] @ v @ [DQUOTE] @ rest) = v"
    using Extract_quoted [of "[]" v rest] by simp
  have c: "DQUOTE \<notin> set v \<and> CR \<notin> set v \<and> LF \<notin> set v \<and> DQUOTE \<notin> set rest
        \<longrightarrow> ExtractBackupNameAttachment
              (''BackupNameAttachment='' @ [DQUOTE] @ v @ [CR] @ rest) = v"
    using Extract_open_quote_CR [of "[]" v rest] by simp
  have d: "DQUOTE \<notin> set v \<and> CR \<notin> set v \<and> LF \<notin> set v \<and> DQUOTE \<notin> set rest
        \<and> CR \<notin> set rest
        \<longrightarrow> ExtractBackupNameAttachment
              (''BackupNameAttachment='' @ [DQUOTE] @ v @ [LF] @ rest) = v"
    using Extract_open_quote_LF [of "[]" v rest] by simp
  have e: "BackupPath P p a
       = DirName P p @ [OS_PATH_SLASH P] @ ''LogBackups'' @ [OS_PATH_SLASH P]
           @ RemoveFileExtension P (BaseName P p) @ a @ GetFileExtension P p"
    by (simp add: BackupPath_def BackupDir_def)
  have n: "CHR 0x00 \<notin> set (BackupPath P p a) \<longrightarrow> c_str (BackupPath P p a) = BackupPath P p a"
    using c_str_no_NUL [of "BackupPath P p a"] by blast
  have f: "\<not> open_fails flt \<and> \<not> read_fails flt \<and> \<not> mkdir_fails flt \<and> \<not> copy_fails flt
        \<and> \<not> resize_fails flt \<and> files d p = Some c \<and> c \<noteq> []
        \<longrightarrow> (\<exists>L' d'. OpenFile P flt L d p = Inr (L', d')
               \<and> files d'
                   = (files d)
                       (c_str (BackupPath P p (ExtractBackupNameAttachment (take 256 c))) \<mapsto> c,
                        p \<mapsto> []))"
  proof
    assume h: "\<not> open_fails flt \<and> \<not> read_fails flt \<and> \<not> mkdir_fails flt \<and> \<not> copy_fails flt
        \<and> \<not> resize_fails flt \<and> files d p = Some c \<and> c \<noteq> []"
    then have "OpenFile P flt L d p
           = Inr (L\<lparr>m_file := Some \<lparr>fpath = p, fpos = 0\<rparr>, m_filePath := p\<rparr>,
                  d\<lparr>dirs := insert (c_str (BackupDir P p)) (dirs d),
                    files := (files d)
                      (c_str (BackupPath P p (ExtractBackupNameAttachment (take 256 c))) \<mapsto> c,
                       p \<mapsto> [])\<rparr>)"
      using OpenFile_existing_nonempty [of flt d p c P L] by blast
    then show "\<exists>L' d'. OpenFile P flt L d p = Inr (L', d')
               \<and> files d'
                   = (files d)
                       (c_str (BackupPath P p (ExtractBackupNameAttachment (take 256 c))) \<mapsto> c,
                        p \<mapsto> [])"
      by simp
  qed
  show ?thesis
    by (intro conjI a b c d e n f)
qed

lemma demo_header_tagged:
  "ExtractBackupNameAttachment
     (take 256 (''BackupNameAttachment='' @ [DQUOTE] @ ''_7'' @ [DQUOTE] @ '' -- kept''))
     = ''_7''"
proof -
  have "take 256 (''BackupNameAttachment='' @ [DQUOTE] @ ''_7'' @ [DQUOTE] @ '' -- kept'')
          = ''BackupNameAttachment='' @ [] @ [DQUOTE] @ ''_7'' @ [DQUOTE] @ '' -- kept''"
    by simp
  moreover have "DQUOTE \<notin> set ''_7''" by (simp add: DQUOTE_def)
  ultimately show ?thesis
    using Extract_quoted [of "[]" "''_7''" "'' -- kept''"] by simp
qed

text \<open>
  The theorem at the value \<^verbatim>\<open>_7\<close>, closed by a double quote, by a carriage return and by
  a line feed, at a header without the marker, and at a \<^verbatim>\<open>Server.log\<close> whose first line
  carries the value.
\<close>

theorem C6_backup_name_attachment_witness:
  "DQUOTE \<notin> set ''_7'' \<and> CR \<notin> set ''_7'' \<and> LF \<notin> set ''_7''
   \<and> ExtractBackupNameAttachment
        (''BackupNameAttachment='' @ [DQUOTE] @ ''_7'' @ [DQUOTE] @ '' -- kept'') = ''_7''
   \<and> DQUOTE \<notin> set (LF # ''next'')
   \<and> ExtractBackupNameAttachment
        (''BackupNameAttachment='' @ [DQUOTE] @ ''_7'' @ [CR] @ LF # ''next'') = ''_7''
   \<and> DQUOTE \<notin> set ''next'' \<and> CR \<notin> set ''next''
   \<and> ExtractBackupNameAttachment
        (''BackupNameAttachment='' @ [DQUOTE] @ ''_7'' @ [LF] @ ''next'') = ''_7''
   \<and> \<not> StartsWith ''old log'' ''BackupNameAttachment=''
   \<and> ExtractBackupNameAttachment ''old log'' = []
   \<and> CHR 0x00 \<notin> set (BackupPath demo_platform ''Server.log'' ''_7'')
   \<and> c_str (BackupPath demo_platform ''Server.log'' ''_7'') = ''./LogBackups/Server_7.log''
   \<and> (\<exists>L' d'. OpenFile demo_platform no_faults (demo_logger (demo_cvars 0 0 []) None)
         (demo_disk (''BackupNameAttachment='' @ [DQUOTE] @ ''_7'' @ [DQUOTE] @ '' -- kept''))
         ''Server.log'' = Inr (L', d')
         \<and> files d' ''./LogBackups/Server_7.log''
            = Some (''BackupNameAttachment='' @ [DQUOTE] @ ''_7'' @ [DQUOTE] @ '' -- kept''))"
proof -
  let ?c = "''BackupNameAttachment='' @ [DQUOTE] @ ''_7'' @ [DQUOTE] @ '' -- kept''"
  let ?L = "demo_logger (demo_cvars 0 0 []) None"
  let ?bp = "''./LogBackups/Server_7.log''"
  note i = C6_backup_name_attachment [of "''old log''" "''_7''" "'' -- kept''" demo_platform
      "''Server.log''" "''_7''" no_faults "demo_disk ?c" ?c ?L]
  note j = C6_backup_name_attachment [of "''old log''" "''_7''" "LF # ''next''" demo_platform
      "''Server.log''" "''_7''" no_faults "demo_disk ?c" ?c ?L]
  note k = C6_backup_name_attachment [of "''old log''" "''_7''" "''next''" demo_platform
      "''Server.log''" "''_7''" no_faults "demo_disk ?c" ?c ?L]
  have q1: "DQUOTE \<notin> set ''_7''" by (simp add: DQUOTE_def)
  have q2: "CR \<notin> set ''_7''" by (simp add: CR_def)
  have q3: "LF \<notin> set ''_7''" by (simp add: LF_def)
  have q: "DQUOTE \<notin> set ''_7'' \<and> CR \<notin> set ''_7'' \<and> LF \<notin> set ''_7''"
    by (intro conjI q1 q2 q3)
  have r1: "DQUOTE \<notin> set (LF # ''next'')" by (simp add: DQUOTE_def LF_def)
  have r2: "DQUOTE \<notin> set ''next''" by (simp add: DQUOTE_def)
  have r3: "CR \<notin> set ''next''" by (simp add: CR_def)
  have a: "ExtractBackupNameAttachment ?c = ''_7''"
    by (rule i [THEN conjunct2, THEN conjunct1, rule_format, OF q])
  have b: "ExtractBackupNameAttachment
        (''BackupNameAttachment='' @ [DQUOTE] @ ''_7'' @ [CR] @ LF # ''next'') = ''_7''"
    by (rule j [THEN conjunct2, THEN conjunct2, THEN conjunct1, rule_format,
          OF conjI [OF q1 conjI [OF q2 conjI [OF q3 r1]]]])
  have c: "ExtractBackupNameAttachment
        (''BackupNameAttachment='' @ [DQUOTE] @ ''_7'' @ [LF] @ ''next'') = ''_7''"
    by (rule k [THEN conjunct2, THEN conjunct2, THEN conjunct2, THEN conjunct1, rule_format,
          OF conjI [OF q1 conjI [OF q2 conjI [OF q3 conjI [OF r2 r3]]]]])
  have n: "\<not> StartsWith ''old log'' ''BackupNameAttachment=''"
    by (simp add: StartsWith_def)
  have e: "ExtractBackupNameAttachment ''old log'' = []"
    by (rule i [THEN conjunct1, rule_format, OF n])
  have path: "BackupPath demo_platform ''Server.log'' ''_7'' = ''./LogBackups/Server_7.log''"
    by (simp add: BackupPath_def BackupDir_def demo_platform_def demo_DirName_def
        demo_BaseName_def demo_RemoveFileExtension_def demo_GetFileExtension_def)
  have z: "CHR 0x00 \<notin> set (BackupPath demo_platform ''Server.log'' ''_7'')"
    unfolding path by simp
  have cs: "c_str (BackupPath demo_platform ''Server.log'' ''_7'') = ?bp"
    using i [THEN conjunct2, THEN conjunct2, THEN conjunct2, THEN conjunct2, THEN conjunct2,
        THEN conjunct1, rule_format, OF z]
    unfolding path .
  have bp: "c_str (BackupPath demo_platform ''Server.log''
      (ExtractBackupNameAttachment (take 256 ?c))) = ?bp"
    by (simp only: demo_header_tagged demo_BackupPath_tagged)
  have fc: "files (demo_disk ?c) ''Server.log'' = Some ?c"
    by (simp add: demo_disk_def)
  have cne: "?c \<noteq> []" by simp
  have h: "\<not> open_fails no_faults \<and> \<not> read_fails no_faults \<and> \<not> mkdir_fails no_faults
      \<and> \<not> copy_fails no_faults \<and> \<not> resize_fails no_faults
      \<and> files (demo_disk ?c) ''Server.log'' = Some ?c \<and> ?c \<noteq> []"
    by (intro conjI no_faults_simps fc cne)
  have o: "\<exists>L' d'. OpenFile demo_platform no_faults ?L (demo_disk ?c) ''Server.log'' = Inr (L', d')
         \<and> files d' ?bp = Some ?c"
  proof -
    from i [THEN conjunct2, THEN conjunct2, THEN conjunct2, THEN conjunct2, THEN conjunct2,
        THEN conjunct2, rule_format, OF h]
    obtain L' d' where r: "OpenFile demo_platform no_faults ?L (demo_disk ?c) ''Server.log''
        = Inr (L', d')"
      and fs: "files d' = (files (demo_disk ?c))
          (c_str (BackupPath demo_platform ''Server.log''
             (ExtractBackupNameAttachment (take 256 ?c))) \<mapsto> ?c, ''Server.log'' \<mapsto> [])"
      by (elim exE conjE) (rule that; assumption)
    have "files d' ?bp = Some ?c"
      unfolding fs bp by simp
    then show ?thesis by (intro exI [of _ L'] exI [of _ d'] conjI r)
  qed
  show ?thesis
    by (intro conjI q1 q2 q3 a r1 b r2 r3 c n e z cs o)
qed

text \<open>
  Claim C6 as stated scans the header for a marker line. A marker on the second line of
  the header gives the empty attachment.
\<close>

theorem C6_later_line_counterexample:
  "ExtractBackupNameAttachment
     (''log start'' @ [LF] @ ''BackupNameAttachment='' @ [DQUOTE] @ ''v1'' @ [DQUOTE] @ [LF]) = []"
  by (rule Extract_no_marker) (simp add: StartsWith_def)

text \<open>
  Claim C9, evaluated on \<^verbatim>\<open>OpenFile\<close>. Each failing primitive ends the call with an
  error at once. The message for open, directory creation, copy and truncation names
  the operation and the path (as the C string handed to the primitive); the message for a failed read of the existing file is the
  fixed text \<^verbatim>\<open>Failed to read the existing log file!\<close>, whatever the path. A
  submission with a null format returns with logger and world unchanged.
\<close>

theorem C9_open_file_errors:
  "(open_fails flt
      \<longrightarrow> OpenFile P flt L d p = Inl (OSError (''Failed to open log file!'' @ [LF] @ ''=> '' @ p), d))
   \<and> (\<not> open_fails flt \<and> files d p = Some c \<and> read_fails flt
      \<longrightarrow> OpenFile P flt L d p = Inl (OSError ''Failed to read the existing log file!'', d))
   \<and> (\<not> open_fails flt \<and> \<not> read_fails flt \<and> files d p = Some c \<and> c \<noteq> [] \<and> mkdir_fails flt
      \<longrightarrow> OpenFile P flt L d p
            = Inl (OSError (''Failed to create log backup directory!'' @ [LF] @ ''=> ''
                     @ c_str (BackupDir P p)), d))
   \<and> (\<not> open_fails flt \<and> \<not> read_fails flt \<and> files d p = Some c \<and> c \<noteq> []
        \<and> \<not> mkdir_fails flt \<and> copy_fails flt
      \<longrightarrow> OpenFile P flt L d p
            = Inl (OSError (''Failed to copy the existing log file!'' @ [LF] @ ''<= '' @ p @ [LF]
                     @ ''=> ''
                     @ c_str (BackupPath P p (ExtractBackupNameAttachment (take 256 c)))),
                   d\<lparr>dirs := insert (c_str (BackupDir P p)) (dirs d)\<rparr>))
   \<and> (\<not> open_fails flt \<and> \<not> read_fails flt \<and> files d p = Some c
        \<and> (c = [] \<or> \<not> mkdir_fails flt \<and> \<not> copy_fails flt) \<and> resize_fails flt
      \<longrightarrow> (\<exists>d'. OpenFile P flt L d p
            = Inl (OSError (''Failed to clear the existing log file!'' @ [LF] @ ''=> '' @ p), d')))
   \<and> PushMessageV P E L W ty fl None args = (L, W)"
proof -
  have a: "open_fails flt
      \<longrightarrow> OpenFile P flt L d p = Inl (OSError (''Failed to open log file!'' @ [LF] @ ''=> '' @ p), d)"
    by (simp add: OpenFile_def File_Open_def)
  have b: "\<not> open_fails flt \<and> files d p = Some c \<and> read_fails flt
      \<longrightarrow> OpenFile P flt L d p = Inl (OSError ''Failed to read the existing log file!'', d)"
    by (simp add: OpenFile_def File_Open_def BackupLogFile_def File_Read_def)
  have c: "\<not> open_fails flt \<and> \<not> read_fails flt \<and> files d p = Some c \<and> c \<noteq> [] \<and> mkdir_fails flt
      \<longrightarrow> OpenFile P flt L d p
            = Inl (OSError (''Failed to create log backup directory!'' @ [LF] @ ''=> ''
                     @ c_str (BackupDir P p)), d)"
    by (simp add: OpenFile_def File_Open_def BackupLogFile_def File_Read_def
        Directory_Create_def Let_def)
  have d: "\<not> open_fails flt \<and> \<not> read_fails flt \<and> files d p = Some c \<and> c \<noteq> []
        \<and> \<not> mkdir_fails flt \<and> copy_fails flt
      \<longrightarrow> OpenFile P flt L d p
            = Inl (OSError (''Failed to copy the existing log file!'' @ [LF] @ ''<= '' @ p @ [LF]
                     @ ''=> ''
                     @ c_str (BackupPath P p (ExtractBackupNameAttachment (take 256 c)))),
                   d\<lparr>dirs := insert (c_str (BackupDir P p)) (dirs d)\<rparr>)"
    by (simp add: OpenFile_def File_Open_def BackupLogFile_def File_Read_def
        Directory_Create_def File_Copy_def Let_def)
  have e: "\<not> open_fails flt \<and> \<not> read_fails flt \<and> files d p = Some c
        \<and> (c = [] \<or> \<not> mkdir_fails flt \<and> \<not> copy_fails flt) \<and> resize_fails flt
      \<longrightarrow> (\<exists>d'. OpenFile P flt L d p
            = Inl (OSError (''Failed to clear the existing log file!'' @ [LF] @ ''=> '' @ p), d'))"
    by (auto simp: OpenFile_def File_Open_def BackupLogFile_def File_Read_def
        Directory_Create_def File_Copy_def File_Resize_def Let_def)
  have f: "PushMessageV P E L W ty fl None args = (L, W)"
    by (simp add: PushMessageV_def PushMessageV_message_def)
  show ?thesis
    by (intro conjI a b c d e f)
qed

text \<open>The theorem at \<^verbatim>\<open>Server.log\<close>, with a failing read and with a failing open.\<close>

theorem C9_open_file_errors_witness:
  "\<not> open_fails (no_faults\<lparr>read_fails := True\<rparr>)
   \<and> files (demo_disk ''old log'') ''Server.log'' = Some ''old log''
   \<and> read_fails (no_faults\<lparr>read_fails := True\<rparr>)
   \<and> OpenFile demo_platform (no_faults\<lparr>read_fails := True\<rparr>)
        (demo_logger (demo_cvars 0 0 []) None) (demo_disk ''old log'') ''Server.log''
      = Inl (OSError ''Failed to read the existing log file!'', demo_disk ''old log'')
   \<and> OpenFile demo_platform (no_faults\<lparr>open_fails := True\<rparr>)
        (demo_logger (demo_cvars 0 0 []) None) (demo_disk ''old log'') ''Server.log''
      = Inl (OSError (''Failed to open log file!'' @ [LF] @ ''=> Server.log''), demo_disk ''old log'')"
proof -
  let ?L = "demo_logger (demo_cvars 0 0 []) None"
  note i = C9_open_file_errors [of "no_faults\<lparr>read_fails := True\<rparr>" demo_platform ?L
      "demo_disk ''old log''" "''Server.log''" "''old log''" "demo_env 4" "demo_world []" eMessage 0 "()"]
  note j = C9_open_file_errors [of "no_faults\<lparr>open_fails := True\<rparr>" demo_platform ?L
      "demo_disk ''old log''" "''Server.log''" "''old log''" "demo_env 4" "demo_world []" eMessage 0 "()"]
  have h1: "\<not> open_fails (no_faults\<lparr>read_fails := True\<rparr>)"
    by (simp add: no_faults_def)
  have h2: "files (demo_disk ''old log'') ''Server.log'' = Some ''old log''"
    by (simp add: demo_disk_def)
  have h3: "read_fails (no_faults\<lparr>read_fails := True\<rparr>)"
    by simp
  have a: "OpenFile demo_platform (no_faults\<lparr>read_fails := True\<rparr>) ?L (demo_disk ''old log'')
      ''Server.log'' = Inl (OSError ''Failed to read the existing log file!'', demo_disk ''old log'')"
    using i [THEN conjunct2, THEN conjunct1] h1 h2 h3 by blast
  have "open_fails (no_faults\<lparr>open_fails := True\<rparr>)"
    by simp
  then have "OpenFile demo_platform (no_faults\<lparr>open_fails := True\<rparr>) ?L (demo_disk ''old log'')
      ''Server.log'' = Inl (OSError (''Failed to open log file!'' @ [LF] @ ''=> '' @ ''Server.log''), demo_disk ''old log'')"
    using j [THEN conjunct1] by blast
  then have b: "OpenFile demo_platform (no_faults\<lparr>open_fails := True\<rparr>) ?L
      (demo_disk ''old log'') ''Server.log''
      = Inl (OSError (''Failed to open log file!'' @ [LF] @ ''=> Server.log''), demo_disk ''old log'')"
    by simp
  show ?thesis
    by (intro conjI h1 h2 h3 a b)
qed

end
